theory Spec2Isabelle
  imports Main
begin

section \<open>Symbols and exceptions\<close>

text \<open>
  \<open>HtnSymbol.__eq__\<close> accepts any \<open>HtnSymbol\<close> with the same name; its subclasses are
  declared with \<open>eq=False\<close> and inherit both \<open>__eq__\<close> and \<open>__hash__\<close>, and no code
  tests the class of a symbol. A symbol is therefore modelled by its name.
\<close>

datatype htn_symbol = HtnSymbol (sym_name: string)

text \<open>The exceptions the code raises.\<close>

datatype error =
    TypeError
  | ValueError
  | OverflowError
  | RuntimeError
  | NotImplementedError
  | ConstraintArgumentError
  | UncreatedContextError
  | UncreatedSymbolTableError
  | UnregisteredSymbolError htn_symbol

section \<open>Python values and floats\<close>

text \<open>
  The \<open>value\<close> field of a typed object is annotated \<open>str | int | bool\<close>.
  Python compares a \<open>bool\<close> with an \<open>int\<close> numerically (\<open>True == 1\<close>),
  and a \<open>str\<close> never equals a number.
\<close>

datatype py_value = PStr string | PInt int | PBool bool

fun int_of_py :: "py_value \<Rightarrow> int option" where
  "int_of_py (PStr s) = None"
| "int_of_py (PInt n) = Some n"
| "int_of_py (PBool b) = Some (if b then 1 else 0)"

fun py_value_eq :: "py_value \<Rightarrow> py_value \<Rightarrow> bool" where
  "py_value_eq (PStr s) (PStr t) = (s = t)"
| "py_value_eq (PStr s) v = False"
| "py_value_eq u (PStr t) = False"
| "py_value_eq u v = (int_of_py u = int_of_py v)"

text \<open>
  A delay is a Python \<open>float\<close>, an IEEE binary64 number. \<open>Float m e\<close> stands for the
  finite number \<open>m * 2 ^ e\<close>; a finite float is kept in canonical form (\<open>m\<close> odd, or
  \<open>Float 0 0\<close>), so that two finite floats are equal in Python exactly when their
  representations are. The two zeros are equal in Python, have the same hash and the same
  \<open>int\<close>, and are not told apart. Every arithmetic result is rounded to nearest, ties to
  even (\<open>rnd\<close>): to 53 significant bits, to a multiple of \<open>2 ^ -1074\<close> for a subnormal
  result, and to an infinity from \<open>2 ^ 1024\<close> on.
\<close>

datatype pyfloat = Float (mant: int) (expo: int) | PosInf | NegInf | NaN

fun bitlen :: "nat \<Rightarrow> nat" where
  "bitlen n = (if n = 0 then 0 else Suc (bitlen (n div 2)))"

declare bitlen.simps [simp del]

function canon :: "int \<Rightarrow> int \<Rightarrow> pyfloat" where
  "canon m e = (if m = 0 then Float 0 0
                else if even m then canon (m div 2) (e + 1)
                else Float m e)"
  by pat_completeness auto
termination
  by (relation "measure (\<lambda>(m, e). nat \<bar>m\<bar>)") auto

declare canon.simps [simp del]

text \<open>\<open>round_half_even m s\<close> is \<open>m / 2 ^ s\<close> rounded to an integer, ties to even.\<close>

definition round_half_even :: "int \<Rightarrow> nat \<Rightarrow> int" where
  "round_half_even m s =
     (let q = m div 2 ^ s; r = m mod 2 ^ s; half = 2 ^ (s - 1)
      in if r < half then q
         else if half < r then q + 1
         else if even q then q else q + 1)"

text \<open>
  \<open>rnd m e\<close> is the float nearest to the exact value \<open>m * 2 ^ e\<close>; \<open>s\<close> is the number
  of low bits of \<open>m\<close> that do not fit.
\<close>

definition rnd :: "int \<Rightarrow> int \<Rightarrow> pyfloat" where
  "rnd m e =
     (let n = int (bitlen (nat \<bar>m\<bar>));
          s = max (n - 53) (- 1074 - e);
          m' = (if s \<le> 0 then m else sgn m * round_half_even \<bar>m\<bar> (nat s));
          e' = (if s \<le> 0 then e else e + s)
      in if 1024 < int (bitlen (nat \<bar>m'\<bar>)) + e' then (if m < 0 then NegInf else PosInf)
         else canon m' e')"

fun fadd :: "pyfloat \<Rightarrow> pyfloat \<Rightarrow> pyfloat" where
  "fadd (Float m1 e1) (Float m2 e2) =
     (let e = min e1 e2
      in rnd (m1 * 2 ^ nat (e1 - e) + m2 * 2 ^ nat (e2 - e)) e)"
| "fadd NaN y = NaN"
| "fadd x NaN = NaN"
| "fadd PosInf NegInf = NaN"
| "fadd NegInf PosInf = NaN"
| "fadd PosInf y = PosInf"
| "fadd NegInf y = NegInf"
| "fadd x PosInf = PosInf"
| "fadd x NegInf = NegInf"

text \<open>The sign of a float that is not NaN: \<open>-1\<close>, \<open>0\<close> or \<open>1\<close>.\<close>

fun fsgn :: "pyfloat \<Rightarrow> int" where
  "fsgn (Float m e) = sgn m"
| "fsgn PosInf = 1"
| "fsgn NegInf = - 1"
| "fsgn NaN = 0"

fun fmul :: "pyfloat \<Rightarrow> pyfloat \<Rightarrow> pyfloat" where
  "fmul (Float m1 e1) (Float m2 e2) = rnd (m1 * m2) (e1 + e2)"
| "fmul NaN y = NaN"
| "fmul x NaN = NaN"
| "fmul x y =
     (if fsgn x * fsgn y = 0 then NaN else if 0 < fsgn x * fsgn y then PosInf else NegInf)"

fun fneg :: "pyfloat \<Rightarrow> pyfloat" where
  "fneg (Float m e) = Float (- m) e"
| "fneg PosInf = NegInf"
| "fneg NegInf = PosInf"
| "fneg NaN = NaN"

text \<open>\<open>a == b\<close> on two floats: NaN is equal to nothing, not even to itself.\<close>

definition feq :: "pyfloat \<Rightarrow> pyfloat \<Rightarrow> bool" where
  "feq a b = (a \<noteq> NaN \<and> a = b)"

text \<open>
  The values that are floats: the infinities, NaN, and the finite numbers in canonical
  form with at most 53 significant bits, no bit below \<open>2 ^ -1074\<close> and a magnitude
  below \<open>2 ^ 1024\<close>. The results of \<open>rnd\<close> are of this kind.
\<close>

fun is_float :: "pyfloat \<Rightarrow> bool" where
  "is_float (Float m e) =
     (if m = 0 then e = 0
      else odd m \<and> bitlen (nat \<bar>m\<bar>) \<le> 53 \<and> - 1074 \<le> e
           \<and> int (bitlen (nat \<bar>m\<bar>)) + e \<le> 1024)"
| "is_float x = True"

text \<open>The float of an integer that is in the range of the floats.\<close>

definition float_of_int :: "int \<Rightarrow> pyfloat" where
  "float_of_int n = rnd n 0"

text \<open>
  \<open>p / q\<close> on two integers (true division, \<open>q\<close> not zero, quotient in the range of the
  floats): the quotient is computed with more than 53 bits and a sticky bit, then
  rounded once.
\<close>

definition int_truediv :: "int \<Rightarrow> int \<Rightarrow> pyfloat" where
  "int_truediv p q =
     (let k = 56 + bitlen (nat \<bar>q\<bar>);
          n = \<bar>p\<bar> * 2 ^ k;
          d = \<bar>q\<bar>;
          m = 2 * (n div d) + (if n mod d = 0 then 0 else 1)
      in rnd (sgn p * sgn q * m) (- int k - 1))"

text \<open>
  \<open>int(x)\<close> on a float truncates towards zero; it raises \<open>OverflowError\<close> on an
  infinity and \<open>ValueError\<close> on NaN.
\<close>

fun py_int :: "pyfloat \<Rightarrow> error + int" where
  "py_int (Float m e) =
     Inr (if 0 \<le> e then m * 2 ^ nat e else sgn m * (\<bar>m\<bar> div 2 ^ nat (- e)))"
| "py_int PosInf = Inl OverflowError"
| "py_int NegInf = Inl OverflowError"
| "py_int NaN = Inl ValueError"

text \<open>\<open>HTN_TIME_SCALE = 10\<close> and \<open>HTN_EPSILON = 1 / HTN_TIME_SCALE\<close> (true division).\<close>

definition HTN_TIME_SCALE :: int where
  "HTN_TIME_SCALE = 10"

definition HTN_EPSILON :: pyfloat where
  "HTN_EPSILON = int_truediv 1 HTN_TIME_SCALE"

section \<open>Types and typed objects\<close>

datatype htn_type = HtnType (name: string) (parent: "htn_type option")

text \<open>
  \<open>HtnType.__eq__\<close> compares the name and then the parents, recursively; a missing
  parent only equals a missing parent.
\<close>

fun type_eq :: "htn_type \<Rightarrow> htn_type \<Rightarrow> bool" where
  "type_eq (HtnType n p) (HtnType m q) =
     (if n \<noteq> m then False
      else case (p, q) of
             (None, None) \<Rightarrow> True
           | (Some a, Some b) \<Rightarrow> type_eq a b
           | _ \<Rightarrow> False)"

definition HTN_TIMEPOINT :: htn_type where
  "HTN_TIMEPOINT = HtnType ''__timepoint__'' None"

definition HTN_BOOLEAN :: htn_type where
  "HTN_BOOLEAN = HtnType ''__boolean__'' None"

definition HTN_INTEGER :: htn_type where
  "HTN_INTEGER = HtnType ''__integer__'' None"

text \<open>
  The classes below \<open>HtnTypedObject\<close>. \<open>HtnVariableTimepoint\<close> inherits from
  \<open>HtnTimepoint\<close> and \<open>HtnVariable\<close>, \<open>HtnConstantTimepoint\<close> from
  \<open>HtnTimepoint\<close> and \<open>HtnConstant\<close>.
\<close>

datatype tp_class = TimepointC | VariableTimepointC | ConstantTimepointC

datatype htn_timepoint =
  Timepoint (tp_cls: tp_class) (tp_value: py_value) (tp_tpe: htn_type) (delay: pyfloat)

datatype htn_typed_object =
    HtnTypedObject py_value htn_type
  | HtnVariable py_value htn_type
  | HtnConstant py_value htn_type
  | TP htn_timepoint

abbreviation HtnTimepoint :: "py_value \<Rightarrow> htn_type \<Rightarrow> pyfloat \<Rightarrow> htn_typed_object" where
  "HtnTimepoint v t d \<equiv> TP (Timepoint TimepointC v t d)"

abbreviation HtnVariableTimepoint :: "py_value \<Rightarrow> htn_type \<Rightarrow> pyfloat \<Rightarrow> htn_typed_object" where
  "HtnVariableTimepoint v t d \<equiv> TP (Timepoint VariableTimepointC v t d)"

abbreviation HtnConstantTimepoint :: "py_value \<Rightarrow> htn_type \<Rightarrow> pyfloat \<Rightarrow> htn_typed_object" where
  "HtnConstantTimepoint v t d \<equiv> TP (Timepoint ConstantTimepointC v t d)"

datatype obj_class =
  TypedObjectK | VariableK | ConstantK | TimepointK | VariableTimepointK | ConstantTimepointK

fun class_of :: "htn_typed_object \<Rightarrow> obj_class" where
  "class_of (HtnTypedObject v t) = TypedObjectK"
| "class_of (HtnVariable v t) = VariableK"
| "class_of (HtnConstant v t) = ConstantK"
| "class_of (TP (Timepoint TimepointC v t d)) = TimepointK"
| "class_of (TP (Timepoint VariableTimepointC v t d)) = VariableTimepointK"
| "class_of (TP (Timepoint ConstantTimepointC v t d)) = ConstantTimepointK"

fun obj_value :: "htn_typed_object \<Rightarrow> py_value" where
  "obj_value (HtnTypedObject v t) = v"
| "obj_value (HtnVariable v t) = v"
| "obj_value (HtnConstant v t) = v"
| "obj_value (TP p) = tp_value p"

fun obj_tpe :: "htn_typed_object \<Rightarrow> htn_type" where
  "obj_tpe (HtnTypedObject v t) = t"
| "obj_tpe (HtnVariable v t) = t"
| "obj_tpe (HtnConstant v t) = t"
| "obj_tpe (TP p) = tp_tpe p"

text \<open>\<open>isinstance\<close> tests, following the class hierarchy.\<close>

fun is_timepoint :: "htn_typed_object \<Rightarrow> bool" where
  "is_timepoint (TP p) = True"
| "is_timepoint x = False"



text \<open>\<open>proper_subclass c d\<close>: class \<open>c\<close> is a strict subclass of class \<open>d\<close>.\<close>

fun proper_subclass :: "obj_class \<Rightarrow> obj_class \<Rightarrow> bool" where
  "proper_subclass c TypedObjectK = (c \<noteq> TypedObjectK)"
| "proper_subclass c VariableK = (c = VariableTimepointK)"
| "proper_subclass c ConstantK = (c = ConstantTimepointK)"
| "proper_subclass c TimepointK = (c = VariableTimepointK \<or> c = ConstantTimepointK)"
| "proper_subclass c d = False"

text \<open>
  \<open>HtnTypedObject.__eq__\<close>, which \<open>HtnVariable\<close> and \<open>HtnConstant\<close> call through
  \<open>super()\<close>: the other side is any typed object with an equal value and an equal type.
\<close>

definition typed_object_eq :: "htn_typed_object \<Rightarrow> htn_typed_object \<Rightarrow> bool" where
  "typed_object_eq self other =
     (if \<not> py_value_eq (obj_value other) (obj_value self) then False
      else if \<not> type_eq (obj_tpe other) (obj_tpe self) then False
      else True)"

text \<open>
  The \<open>__eq__\<close> method each class ends up with; \<open>None\<close> is \<open>NotImplemented\<close>.
  \<open>HtnTimepoint\<close> defines its own, which compares the delays with \<open>==\<close>.
  \<open>HtnVariableTimepoint\<close> and \<open>HtnConstantTimepoint\<close> define none in their bodies, so
  the \<open>dataclass\<close> decorator generates one: the operands must have the very same class,
  and then the field tuples \<open>(value, tpe, delay)\<close> are compared. A tuple comparison
  takes two elements for equal when they are the same object or \<open>==\<close>; the model has
  no object identities and takes two equal delays, NaN included, for the same object.
\<close>

fun eq_method :: "htn_typed_object \<Rightarrow> htn_typed_object \<Rightarrow> bool option" where
  "eq_method (TP (Timepoint TimepointC v t d)) other =
     Some (if \<not> typed_object_eq (TP (Timepoint TimepointC v t d)) other then False
           else case other of TP q \<Rightarrow> feq (delay q) d | _ \<Rightarrow> False)"
| "eq_method (TP (Timepoint c v t d)) other =
     (case other of
        TP (Timepoint c' v' t' d') \<Rightarrow>
          if c' = c then Some (py_value_eq v v' \<and> type_eq t t' \<and> d = d') else None
      | _ \<Rightarrow> None)"
| "eq_method self other = Some (typed_object_eq self other)"

text \<open>
  Python's \<open>a == b\<close>: when the class of \<open>b\<close> is a strict subclass of the class of
  \<open>a\<close>, the method of \<open>b\<close> is tried first; a method answering \<open>NotImplemented\<close>
  hands over to the other operand's; when both decline, the objects are compared by
  identity, and two objects of different classes are never identical.
\<close>

definition py_eq :: "htn_typed_object \<Rightarrow> htn_typed_object \<Rightarrow> bool" where
  "py_eq a b =
     (if proper_subclass (class_of b) (class_of a) then
        (case eq_method b a of
           Some r \<Rightarrow> r
         | None \<Rightarrow> (case eq_method a b of Some r \<Rightarrow> r | None \<Rightarrow> False))
      else
        (case eq_method a b of
           Some r \<Rightarrow> r
         | None \<Rightarrow> (case eq_method b a of Some r \<Rightarrow> r | None \<Rightarrow> False)))"

definition HTN_TRUE :: htn_typed_object where
  "HTN_TRUE = HtnConstant (PBool True) HTN_BOOLEAN"

definition HTN_FALSE :: htn_typed_object where
  "HTN_FALSE = HtnConstant (PBool False) HTN_BOOLEAN"

section \<open>Parametric symbols\<close>

record htn_parametric_symbol =
  symbol :: htn_symbol
  params :: "htn_typed_object list"

text \<open>
  \<open>HtnParametricSymbol.__eq__\<close>: the inner loop looks for a parameter of the other side
  that the current parameter equals.
\<close>

definition find_match :: "htn_typed_object \<Rightarrow> htn_typed_object list \<Rightarrow> bool" where
  "find_match param o_params = list_ex (\<lambda>o_param. py_eq param o_param) o_params"

definition parametric_symbol_eq ::
  "htn_parametric_symbol \<Rightarrow> htn_parametric_symbol \<Rightarrow> bool" where
  "parametric_symbol_eq self other =
     (if symbol self \<noteq> symbol other then False
      else if length (params self) \<noteq> length (params other) then False
      else list_all (\<lambda>param. find_match param (params other)) (params self))"

section \<open>Hashing and membership\<close>

text \<open>
  Every class of the formalism is a frozen dataclass, so its \<open>__hash__\<close> is the hash of
  the tuple of its fields. The model keeps that tuple as the hash, with
  \<open>hash(True) = hash(1)\<close> and \<open>hash(False) = hash(0)\<close>: two objects with the same key
  have the same hash. Objects with different keys are taken to have different hashes.
  A float and an integer of the same value have the same hash in Python; no field of the
  formalism is compared with a field of the other kind, so the two kinds of keys are kept
  apart.
\<close>

datatype hkey = HNone | HStr string | HNum int | HFloat pyfloat | HTup "hkey list"

fun hash_value :: "py_value \<Rightarrow> hkey" where
  "hash_value (PStr s) = HStr s"
| "hash_value (PInt n) = HNum n"
| "hash_value (PBool b) = HNum (if b then 1 else 0)"

fun type_hash :: "htn_type \<Rightarrow> hkey" where
  "type_hash (HtnType n p) =
     HTup [HStr n, (case p of None \<Rightarrow> HNone | Some q \<Rightarrow> type_hash q)]"

fun obj_hash :: "htn_typed_object \<Rightarrow> hkey" where
  "obj_hash (TP p) = HTup [hash_value (tp_value p), type_hash (tp_tpe p), HFloat (delay p)]"
| "obj_hash x = HTup [hash_value (obj_value x), type_hash (obj_tpe x)]"

definition symbol_hash :: "htn_symbol \<Rightarrow> hkey" where
  "symbol_hash s = HTup [HStr (sym_name s)]"

text \<open>
  Python's containers take an element for equal to \<open>x\<close> when it is the same object as
  \<open>x\<close> or \<open>==\<close> to it. The model has no object identities: two values of the same
  class with the same fields stand for the same object. Every \<open>__eq__\<close> below holds
  between an object and itself unless a delay in it is NaN, so the two readings differ
  only there.
\<close>

definition same_or :: "('a \<Rightarrow> 'a \<Rightarrow> bool) \<Rightarrow> 'a \<Rightarrow> 'a \<Rightarrow> bool" where
  "same_or eq y x = (y = x \<or> eq y x)"

text \<open>
  A set is modelled by the list of its stored elements, in the order in which they were
  added. \<open>x in s\<close>: some stored element has the hash of \<open>x\<close> and, compared with \<open>x\<close>
  (stored element on the left), is equal to it. \<open>s.add(x)\<close> stores \<open>x\<close> unless
  \<open>x in s\<close>; \<open>s.update(xs)\<close> adds the elements of \<open>xs\<close> one by one; \<open>set(xs)\<close> and a
  set comprehension update the empty set.
\<close>

definition set_member :: "('a \<Rightarrow> 'a \<Rightarrow> bool) \<Rightarrow> ('a \<Rightarrow> hkey) \<Rightarrow> 'a \<Rightarrow> 'a list \<Rightarrow> bool" where
  "set_member eq h x s = list_ex (\<lambda>y. h y = h x \<and> same_or eq y x) s"

definition set_add :: "('a \<Rightarrow> 'a \<Rightarrow> bool) \<Rightarrow> ('a \<Rightarrow> hkey) \<Rightarrow> 'a \<Rightarrow> 'a list \<Rightarrow> 'a list" where
  "set_add eq h x s = (if set_member eq h x s then s else s @ [x])"

definition set_update :: "('a \<Rightarrow> 'a \<Rightarrow> bool) \<Rightarrow> ('a \<Rightarrow> hkey) \<Rightarrow> 'a list \<Rightarrow> 'a list \<Rightarrow> 'a list" where
  "set_update eq h xs s = foldl (\<lambda>acc x. set_add eq h x acc) s xs"

definition py_in :: "htn_typed_object \<Rightarrow> htn_typed_object list \<Rightarrow> bool" where
  "py_in x s = set_member py_eq obj_hash x s"

text \<open>\<open>x in xs\<close> for a list or a tuple: some element, compared with \<open>x\<close>, is equal to it.\<close>

definition list_contains :: "('a \<Rightarrow> 'a \<Rightarrow> bool) \<Rightarrow> 'a \<Rightarrow> 'a list \<Rightarrow> bool" where
  "list_contains eq x xs = list_ex (\<lambda>y. same_or eq y x) xs"

text \<open>
  Two tuples are equal when they have the same length and their elements are equal
  position by position.
\<close>

definition tuple_eq :: "('a \<Rightarrow> 'a \<Rightarrow> bool) \<Rightarrow> 'a list \<Rightarrow> 'a list \<Rightarrow> bool" where
  "tuple_eq eq xs ys = list_all2 (same_or eq) xs ys"

section \<open>Timepoint arithmetic and temporal intervals\<close>

text \<open>
  \<open>HtnTimepoint.__add__\<close> converts its argument with \<open>float\<close> and returns an object of
  the class of \<open>self\<close> with the delay increased; \<open>__sub__\<close> adds the negated argument.
  The argument of the model is the number after the conversion; an argument that is not
  a number makes the source raise.
\<close>

fun tp_add :: "htn_timepoint \<Rightarrow> pyfloat \<Rightarrow> htn_timepoint" where
  "tp_add (Timepoint c v t d) other = Timepoint c v t (fadd d other)"

definition tp_sub :: "htn_timepoint \<Rightarrow> pyfloat \<Rightarrow> htn_timepoint" where
  "tp_sub self other = tp_add self (fneg other)"

datatype htn_temporal_interval =
  HtnTemporalInterval (i_start: htn_timepoint) (i_end: htn_timepoint)

definition interval_add :: "htn_temporal_interval \<Rightarrow> pyfloat \<Rightarrow> htn_temporal_interval" where
  "interval_add self other =
     HtnTemporalInterval (tp_add (i_start self) other) (tp_add (i_end self) other)"

definition interval_sub :: "htn_temporal_interval \<Rightarrow> pyfloat \<Rightarrow> htn_temporal_interval" where
  "interval_sub self other =
     HtnTemporalInterval (tp_sub (i_start self) other) (tp_sub (i_end self) other)"

definition interval_eq :: "htn_temporal_interval \<Rightarrow> htn_temporal_interval \<Rightarrow> bool" where
  "interval_eq self other =
     (if \<not> py_eq (TP (i_start other)) (TP (i_start self)) then False
      else py_eq (TP (i_end other)) (TP (i_end self)))"

definition interval_hash :: "htn_temporal_interval \<Rightarrow> hkey" where
  "interval_hash i = HTup [obj_hash (TP (i_start i)), obj_hash (TP (i_end i))]"

section \<open>Labels, state variables, conditions and effects\<close>

text \<open>
  \<open>HtnLabel\<close>, \<open>HtnStateVariable\<close>, \<open>HtnCondition\<close> and \<open>HtnEffect\<close> define no
  \<open>__eq__\<close>: the one generated for a dataclass compares the tuples of the fields, and
  a tuple comparison takes two elements for equal when they are the same object or
  \<open>==\<close>.
\<close>

datatype htn_label = HtnLabel (lab_value: string)

definition label_hash :: "htn_label \<Rightarrow> hkey" where
  "label_hash l = HTup [HStr (lab_value l)]"

datatype htn_state_variable =
  HtnStateVariable (sv_symbol: htn_symbol) (sv_params: "htn_typed_object list") (sv_tpe: htn_type)

definition sv_eq :: "htn_state_variable \<Rightarrow> htn_state_variable \<Rightarrow> bool" where
  "sv_eq a b = (sv_symbol a = sv_symbol b
                \<and> same_or (tuple_eq py_eq) (sv_params a) (sv_params b)
                \<and> same_or type_eq (sv_tpe a) (sv_tpe b))"

definition sv_hash :: "htn_state_variable \<Rightarrow> hkey" where
  "sv_hash a = HTup [symbol_hash (sv_symbol a), HTup (map obj_hash (sv_params a)),
                     type_hash (sv_tpe a)]"

text \<open>
  The order in which a set is iterated depends on the hashes of its elements, which
  change from one run of the interpreter to the next, and on the history of the set. It
  is a parameter of the model: a function that is given the stored elements in the order
  of insertion and returns them in the order of iteration. Two kinds of sets are
  iterated, sets of state variables and sets of typed objects.
\<close>

record set_iteration =
  iter_sv :: "htn_state_variable list \<Rightarrow> htn_state_variable list"
  iter_obj :: "htn_typed_object list \<Rightarrow> htn_typed_object list"

datatype htn_condition =
  HtnCondition (c_sv: htn_state_variable) (c_value: htn_typed_object)
    (c_interval: htn_temporal_interval)

definition condition_eq :: "htn_condition \<Rightarrow> htn_condition \<Rightarrow> bool" where
  "condition_eq a b = (same_or sv_eq (c_sv a) (c_sv b)
                       \<and> same_or py_eq (c_value a) (c_value b)
                       \<and> same_or interval_eq (c_interval a) (c_interval b))"

definition condition_hash :: "htn_condition \<Rightarrow> hkey" where
  "condition_hash a = HTup [sv_hash (c_sv a), obj_hash (c_value a), interval_hash (c_interval a)]"

datatype htn_effect =
  HtnEffect (e_sv: htn_state_variable) (e_value: htn_typed_object)
    (e_interval: htn_temporal_interval)

definition effect_eq :: "htn_effect \<Rightarrow> htn_effect \<Rightarrow> bool" where
  "effect_eq a b = (same_or sv_eq (e_sv a) (e_sv b)
                    \<and> same_or py_eq (e_value a) (e_value b)
                    \<and> same_or interval_eq (e_interval a) (e_interval b))"

definition effect_hash :: "htn_effect \<Rightarrow> hkey" where
  "effect_hash a = HTup [sv_hash (e_sv a), obj_hash (e_value a), interval_hash (e_interval a)]"

text \<open>\<open>HtnEffectFactory.dirac\<close>.\<close>

definition dirac ::
  "htn_state_variable \<Rightarrow> htn_typed_object \<Rightarrow> htn_temporal_interval
   \<Rightarrow> error + (htn_effect \<times> htn_effect)" where
  "dirac sv val interval =
     (if \<not> type_eq (sv_tpe sv) HTN_BOOLEAN then Inl TypeError
      else let opposition_value = (if py_eq val HTN_FALSE then HTN_TRUE else HTN_FALSE)
           in Inr (HtnEffect sv val (interval_sub interval HTN_EPSILON),
                   HtnEffect sv opposition_value interval))"

section \<open>Constraints\<close>

datatype htn_constraint =
    HtnConstraint (k_left: htn_typed_object) (k_right: htn_typed_object) (k_relation: string)
  | HtnTemporalConstraint (tk_left: htn_timepoint) (tk_right: htn_timepoint)
      (tk_relation: string) (left_label: "htn_label option") (right_label: "htn_label option")

text \<open>
  The generated \<open>__eq__\<close> answers \<open>NotImplemented\<close> unless both operands have the very
  same class, so a plain constraint never equals a temporal one.
\<close>

fun constraint_eq :: "htn_constraint \<Rightarrow> htn_constraint \<Rightarrow> bool" where
  "constraint_eq (HtnConstraint l r rel) (HtnConstraint l' r' rel') =
     (same_or py_eq l l' \<and> same_or py_eq r r' \<and> rel = rel')"
| "constraint_eq (HtnTemporalConstraint l r rel ll lr) (HtnTemporalConstraint l' r' rel' ll' lr') =
     (same_or py_eq (TP l) (TP l') \<and> same_or py_eq (TP r) (TP r') \<and> rel = rel'
      \<and> ll = ll' \<and> lr = lr')"
| "constraint_eq a b = False"

fun label_opt_hash :: "htn_label option \<Rightarrow> hkey" where
  "label_opt_hash None = HNone"
| "label_opt_hash (Some l) = label_hash l"

fun constraint_hash :: "htn_constraint \<Rightarrow> hkey" where
  "constraint_hash (HtnConstraint l r rel) = HTup [obj_hash l, obj_hash r, HStr rel]"
| "constraint_hash (HtnTemporalConstraint l r rel ll lr) =
     HTup [obj_hash (TP l), obj_hash (TP r), HStr rel, label_opt_hash ll, label_opt_hash lr]"

text \<open>\<open>HtnConstraintFactory._make\<close>, \<open>ge\<close>, \<open>min_duration\<close> and \<open>min_duration_eps\<close>.\<close>

definition constraint_make ::
  "htn_typed_object \<Rightarrow> htn_typed_object \<Rightarrow> string \<Rightarrow> htn_label option \<Rightarrow> htn_label option
   \<Rightarrow> error + htn_constraint" where
  "constraint_make left right relation lab_left lab_right =
     (case left of
        TP l \<Rightarrow>
          (case right of
             TP r \<Rightarrow> Inr (HtnTemporalConstraint l r relation lab_left lab_right)
           | _ \<Rightarrow> Inl ConstraintArgumentError)
      | _ \<Rightarrow>
          if is_timepoint right then Inl ConstraintArgumentError
          else if lab_left \<noteq> None then Inl ConstraintArgumentError
          else if lab_right \<noteq> None then Inl ConstraintArgumentError
          else Inr (HtnConstraint left right relation))"

definition ge ::
  "htn_typed_object \<Rightarrow> htn_typed_object \<Rightarrow> htn_label option \<Rightarrow> htn_label option
   \<Rightarrow> error + htn_constraint" where
  "ge left right lab_left lab_right = constraint_make left right ''>='' lab_left lab_right"

text \<open>
  \<open>min_duration\<close> reads \<open>start\<close> and \<open>end\<close> of a task or of an interval; the \<open>start\<close>
  and \<open>end\<close> of a task are those of its interval, which is what the model is given.
\<close>

definition min_duration ::
  "htn_temporal_interval \<Rightarrow> pyfloat \<Rightarrow> htn_label option \<Rightarrow> error + htn_constraint" where
  "min_duration task_or_interval duration label =
     ge (TP (i_end task_or_interval)) (TP (tp_add (i_start task_or_interval) duration))
        label label"

definition min_duration_eps ::
  "htn_temporal_interval \<Rightarrow> htn_label option \<Rightarrow> error + htn_constraint" where
  "min_duration_eps task_or_interval label = min_duration task_or_interval HTN_EPSILON label"

section \<open>Lowering to strings\<close>

text \<open>\<open>str\<close> of an integer, of a value, of a type (its name) and of a label (its value).\<close>

definition digit_char :: "nat \<Rightarrow> char" where
  "digit_char n = ''0123456789'' ! n"

function str_of_nat :: "nat \<Rightarrow> string" where
  "str_of_nat n =
     (if n < 10 then [digit_char n] else str_of_nat (n div 10) @ [digit_char (n mod 10)])"
  by pat_completeness auto
termination
  by (relation "measure id") auto

declare str_of_nat.simps [simp del]

definition str_of_int :: "int \<Rightarrow> string" where
  "str_of_int i = (if i < 0 then CHR ''-'' # str_of_nat (nat (- i)) else str_of_nat (nat i))"

fun py_str :: "py_value \<Rightarrow> string" where
  "py_str (PStr s) = s"
| "py_str (PInt n) = str_of_int n"
| "py_str (PBool b) = (if b then ''True'' else ''False'')"

text \<open>A list comprehension over a function that may raise stops at the first exception.\<close>

fun map_res :: "('a \<Rightarrow> error + 'b) \<Rightarrow> 'a list \<Rightarrow> error + 'b list" where
  "map_res f [] = Inr []"
| "map_res f (x # xs) =
     (case f x of
        Inl e \<Rightarrow> Inl e
      | Inr y \<Rightarrow> (case map_res f xs of Inl e \<Rightarrow> Inl e | Inr ys \<Rightarrow> Inr (y # ys)))"

text \<open>
  \<open>get_timepoint\<close>. A label object is always true in the test \<open>if htn_label\<close>, so the
  label is appended whenever one is given. The delay is multiplied by \<open>HTN_TIME_SCALE\<close>
  and converted with \<open>int\<close>, which raises when the product is an infinity or NaN.
\<close>

definition get_timepoint :: "htn_timepoint \<Rightarrow> htn_label option \<Rightarrow> error + string" where
  "get_timepoint htn_timepoint htn_label =
     (let v = py_str (tp_value htn_timepoint);
          v' = (case htn_label of None \<Rightarrow> v | Some l \<Rightarrow> v @ lab_value l)
      in case py_int (fmul (delay htn_timepoint) (float_of_int HTN_TIME_SCALE)) of
           Inl e \<Rightarrow> Inl e
         | Inr n \<Rightarrow> Inr (v' @ '' + '' @ str_of_int n @ '' - '' @ name (tp_tpe htn_timepoint)))"

definition get_typed_object :: "htn_typed_object \<Rightarrow> error + string" where
  "get_typed_object htn_obj =
     (case htn_obj of
        TP p \<Rightarrow> get_timepoint p None
      | _ \<Rightarrow> Inr (py_str (obj_value htn_obj) @ '' - '' @ name (obj_tpe htn_obj)))"

definition get_interval ::
  "htn_temporal_interval \<Rightarrow> htn_label option \<Rightarrow> error + string list" where
  "get_interval htn_interval htn_label =
     (case get_timepoint (i_start htn_interval) htn_label of
        Inl e \<Rightarrow> Inl e
      | Inr s \<Rightarrow>
          (case get_timepoint (i_end htn_interval) htn_label of
             Inl e \<Rightarrow> Inl e
           | Inr t \<Rightarrow> Inr [s, t]))"

fun get_constraint :: "htn_constraint \<Rightarrow> error + string list" where
  "get_constraint (HtnTemporalConstraint l r rel ll lr) =
     (case get_timepoint l ll of
        Inl e \<Rightarrow> Inl e
      | Inr s \<Rightarrow>
          (case get_timepoint r lr of
             Inl e \<Rightarrow> Inl e
           | Inr t \<Rightarrow> Inr [s, rel, t]))"
| "get_constraint (HtnConstraint l r rel) =
     (case get_typed_object l of
        Inl e \<Rightarrow> Inl e
      | Inr s \<Rightarrow>
          (case get_typed_object r of
             Inl e \<Rightarrow> Inl e
           | Inr t \<Rightarrow> Inr [s, rel, t]))"

section \<open>Tasks, task networks and methods\<close>



datatype htn_task =
    HtnPrimitiveTask (t_symbol: htn_symbol) (t_params: "htn_typed_object list")
      (t_interval: htn_temporal_interval) (t_constraints: "htn_constraint list")
      (t_conditions: "htn_condition list") (t_effects: "htn_effect list")
  | HtnCompoundTask (t_symbol: htn_symbol) (t_params: "htn_typed_object list")
      (t_interval: htn_temporal_interval)
where
  "t_constraints (HtnCompoundTask s p i) = []"
| "t_conditions (HtnCompoundTask s p i) = []"
| "t_effects (HtnCompoundTask s p i) = []"

fun is_primitive :: "htn_task \<Rightarrow> bool" where
  "is_primitive (HtnPrimitiveTask s p i cs cds es) = True"
| "is_primitive (HtnCompoundTask s p i) = False"

text \<open>
  \<open>HtnPrimitiveTask.state_variables\<close> is the set of the state variables of the conditions
  and of the effects (the model gives its stored elements); \<open>all_params\<close> iterates that
  set, in the order \<open>iter_sv\<close>, and extends the parameters with those of the state
  variables that the list does not contain yet. A compound task inherits \<open>all_params\<close>
  from the parametric symbol, where it is \<open>params\<close>.
\<close>

definition task_state_variables :: "htn_task \<Rightarrow> htn_state_variable list" where
  "task_state_variables t =
     set_update sv_eq sv_hash (map c_sv (t_conditions t) @ map e_sv (t_effects t)) []"

fun all_params :: "set_iteration \<Rightarrow> htn_task \<Rightarrow> htn_typed_object list" where
  "all_params it (HtnPrimitiveTask s p i cs cds es) =
     foldl (\<lambda>acc param. if \<not> list_contains py_eq param acc then acc @ [param] else acc) p
       (concat (map sv_params
          (iter_sv it (task_state_variables (HtnPrimitiveTask s p i cs cds es)))))"
| "all_params it (HtnCompoundTask s p i) = p"

text \<open>
  \<open>HtnTask.__eq__\<close>, and the methods of the two subclasses, which call it through
  \<open>super()\<close> and then test the class of the other operand.
\<close>

definition htn_task_eq :: "htn_task \<Rightarrow> htn_task \<Rightarrow> bool" where
  "htn_task_eq self other =
     (if \<not> parametric_symbol_eq \<lparr>symbol = t_symbol self, params = t_params self\<rparr>
              \<lparr>symbol = t_symbol other, params = t_params other\<rparr> then False
      else if t_symbol self \<noteq> t_symbol other then False
      else if \<not> interval_eq (t_interval self) (t_interval other) then False
      else True)"

definition task_eq :: "htn_task \<Rightarrow> htn_task \<Rightarrow> bool" where
  "task_eq self other =
     (if \<not> htn_task_eq self other then False
      else if is_primitive self then
        (if \<not> is_primitive other then False
         else if \<not> tuple_eq constraint_eq (t_constraints self) (t_constraints other) then False
         else if \<not> tuple_eq condition_eq (t_conditions self) (t_conditions other) then False
         else if \<not> tuple_eq effect_eq (t_effects self) (t_effects other) then False
         else True)
      else
        (if is_primitive other then False else True))"

fun task_hash :: "htn_task \<Rightarrow> hkey" where
  "task_hash (HtnPrimitiveTask s p i cs cds es) =
     HTup [symbol_hash s, HTup (map obj_hash p), interval_hash i,
           HTup (map constraint_hash cs), HTup (map condition_hash cds),
           HTup (map effect_hash es)]"
| "task_hash (HtnCompoundTask s p i) =
     HTup [symbol_hash s, HTup (map obj_hash p), interval_hash i]"

datatype htn_label_mapping_pair =
  HtnLabelMappingPair (lmp_label: htn_label) (lmp_task: htn_task)

definition lmp_eq :: "htn_label_mapping_pair \<Rightarrow> htn_label_mapping_pair \<Rightarrow> bool" where
  "lmp_eq a b = (lmp_label a = lmp_label b \<and> same_or task_eq (lmp_task a) (lmp_task b))"

definition lmp_hash :: "htn_label_mapping_pair \<Rightarrow> hkey" where
  "lmp_hash a = HTup [label_hash (lmp_label a), task_hash (lmp_task a)]"

datatype htn_task_network =
  HtnTaskNetwork (label_mapping: "htn_label_mapping_pair list")
    (tn_constraints: "htn_constraint list")

definition tn_tasks :: "htn_task_network \<Rightarrow> htn_task list" where
  "tn_tasks tn = map lmp_task (label_mapping tn)"

definition tn_eq :: "htn_task_network \<Rightarrow> htn_task_network \<Rightarrow> bool" where
  "tn_eq a b = (same_or (tuple_eq lmp_eq) (label_mapping a) (label_mapping b)
                \<and> same_or (tuple_eq constraint_eq) (tn_constraints a) (tn_constraints b))"

definition tn_hash :: "htn_task_network \<Rightarrow> hkey" where
  "tn_hash a = HTup [HTup (map lmp_hash (label_mapping a)),
                     HTup (map constraint_hash (tn_constraints a))]"

text \<open>
  A method; its constructor raises \<open>TypeError\<close> unless the task is a compound task. Its
  \<open>__eq__\<close> and \<open>__hash__\<close> are the generated ones.
\<close>

datatype htn_method =
  HtnMethod (m_task: htn_task) (m_task_network: htn_task_network)
    (m_constraints: "htn_constraint list") (m_conditions: "htn_condition list")
    (m_symbol: htn_symbol)

definition method_state_variables :: "htn_method \<Rightarrow> htn_state_variable list" where
  "method_state_variables m = set_update sv_eq sv_hash (map c_sv (m_conditions m)) []"

text \<open>
  \<open>HtnMethod.all_params\<close> collects the parameters in a set and returns the tuple of
  that set.
\<close>

definition method_all_params :: "set_iteration \<Rightarrow> htn_method \<Rightarrow> htn_typed_object list" where
  "method_all_params it m =
     (let s0 = set_update py_eq obj_hash (all_params it (m_task m)) [];
          s1 = foldl (\<lambda>acc t. set_update py_eq obj_hash (all_params it t) acc) s0
                 (tn_tasks (m_task_network m));
          s2 = set_update py_eq obj_hash
                 (concat (map sv_params (iter_sv it (method_state_variables m)))) s1
      in iter_obj it s2)"

definition method_eq :: "htn_method \<Rightarrow> htn_method \<Rightarrow> bool" where
  "method_eq a b =
     (same_or task_eq (m_task a) (m_task b)
      \<and> same_or tn_eq (m_task_network a) (m_task_network b)
      \<and> same_or (tuple_eq constraint_eq) (m_constraints a) (m_constraints b)
      \<and> same_or (tuple_eq condition_eq) (m_conditions a) (m_conditions b)
      \<and> m_symbol a = m_symbol b)"

definition method_hash :: "htn_method \<Rightarrow> hkey" where
  "method_hash a =
     HTup [task_hash (m_task a), tn_hash (m_task_network a),
           HTup (map constraint_hash (m_constraints a)),
           HTup (map condition_hash (m_conditions a)), symbol_hash (m_symbol a)]"

section \<open>The conversion pipeline\<close>


datatype builder_call =
    B_add_type string "string option"
  | B_add_action_symbol string
  | B_add_constant_symbol string string
  | B_add_method_symbol string
  | B_add_predicate_symbol string
  | B_add_function_symbol string
  | B_add_task_symbol string
  | B_create_symbol_table
  | B_add_predicate "string list"
  | B_add_function "string list"
  | B_create_context
  | B_add_action "string list" "string list list" "string list list" "string list list"
  | B_add_method "string list" "string list list" "string list list" "string list"
      "string list list" "string list list"
  | B_add_goal "string list list" "string list list"
  | B_add_initial_effect "string list"

record chronicles_problem =
  problem :: "builder_call list"
  context_created :: bool
  symbol_table_created :: bool
  actions :: "htn_task list"
  constants :: "htn_typed_object list"
  initial_effects :: "htn_effect list"
  methods :: "htn_method list"
  state_variables :: "htn_state_variable list"
  symbols :: "htn_symbol list"
  tasks :: "htn_task list"
  types :: "htn_type list"
  variables :: "htn_typed_object list"

text \<open>The state after \<open>__init__\<close>.\<close>

definition init :: chronicles_problem where
  "init = \<lparr>problem = [], context_created = False, symbol_table_created = False,
           actions = [], constants = [], initial_effects = [], methods = [],
           state_variables = [], symbols = [], tasks = [], types = [], variables = []\<rparr>"

definition builder :: "builder_call \<Rightarrow> chronicles_problem \<Rightarrow> chronicles_problem" where
  "builder c P = P\<lparr>problem := problem P @ [c]\<rparr>"

text \<open>
  The checks; \<open>None\<close> when the check passes, the exception otherwise. A symbol equals
  any symbol with the same name.
\<close>

definition check_context :: "chronicles_problem \<Rightarrow> error option" where
  "check_context P = (if \<not> context_created P then Some UncreatedContextError else None)"

definition check_symbol_table :: "chronicles_problem \<Rightarrow> error option" where
  "check_symbol_table P =
     (if \<not> symbol_table_created P then Some UncreatedSymbolTableError else None)"

definition check_symbol :: "chronicles_problem \<Rightarrow> htn_symbol \<Rightarrow> error option" where
  "check_symbol P symb =
     (case check_symbol_table P of
        Some e \<Rightarrow> Some e
      | None \<Rightarrow>
          if \<not> set_member (=) symbol_hash symb (symbols P)
          then Some (UnregisteredSymbolError symb) else None)"

definition create_context :: "chronicles_problem \<Rightarrow> chronicles_problem" where
  "create_context P = (builder B_create_context P)\<lparr>context_created := True\<rparr>"

definition create_symbol_table :: "chronicles_problem \<Rightarrow> chronicles_problem" where
  "create_symbol_table P = (builder B_create_symbol_table P)\<lparr>symbol_table_created := True\<rparr>"

text \<open>
  \<open>get_signature\<close> reads the attributes \<open>symbol\<close> and \<open>all_params\<close> of its argument (a
  state variable, a task or a method), \<open>get_signature_temporal\<close> also its \<open>interval\<close>;
  the model is given these attributes.
\<close>

definition get_signature ::
  "chronicles_problem \<Rightarrow> htn_symbol \<Rightarrow> htn_typed_object list \<Rightarrow> error + string list" where
  "get_signature P symb params_all =
     (case check_symbol P symb of
        Some e \<Rightarrow> Inl e
      | None \<Rightarrow>
          (case check_symbol_table P of
             Some e \<Rightarrow> Inl e
           | None \<Rightarrow>
               (case map_res get_typed_object params_all of
                  Inl e \<Rightarrow> Inl e
                | Inr ps \<Rightarrow> Inr (sym_name symb # ps))))"

definition get_signature_temporal ::
  "chronicles_problem \<Rightarrow> htn_symbol \<Rightarrow> htn_typed_object list \<Rightarrow> htn_temporal_interval
   \<Rightarrow> htn_label option \<Rightarrow> error + string list" where
  "get_signature_temporal P symb params_all interval htn_label =
     (case get_signature P symb params_all of
        Inl e \<Rightarrow> Inl e
      | Inr sig \<Rightarrow>
          (case get_interval interval htn_label of
             Inl e \<Rightarrow> Inl e
           | Inr iv \<Rightarrow> Inr (sig @ iv)))"

definition task_signature ::
  "set_iteration \<Rightarrow> chronicles_problem \<Rightarrow> htn_task \<Rightarrow> error + string list" where
  "task_signature it P t = get_signature P (t_symbol t) (all_params it t)"

definition task_signature_temporal ::
  "set_iteration \<Rightarrow> chronicles_problem \<Rightarrow> htn_task \<Rightarrow> htn_label option
   \<Rightarrow> error + string list" where
  "task_signature_temporal it P t htn_label =
     get_signature_temporal P (t_symbol t) (all_params it t) (t_interval t) htn_label"

definition method_signature_temporal ::
  "set_iteration \<Rightarrow> chronicles_problem \<Rightarrow> htn_method \<Rightarrow> error + string list" where
  "method_signature_temporal it P m =
     get_signature_temporal P (m_symbol m) (method_all_params it m) (t_interval (m_task m))
       None"

definition sv_signature :: "chronicles_problem \<Rightarrow> htn_state_variable \<Rightarrow> error + string list" where
  "sv_signature P sv = get_signature P (sv_symbol sv) (sv_params sv)"

definition get_condition :: "chronicles_problem \<Rightarrow> htn_condition \<Rightarrow> error + string list" where
  "get_condition P c =
     (case sv_signature P (c_sv c) of
        Inl e \<Rightarrow> Inl e
      | Inr sig \<Rightarrow>
          (case get_interval (c_interval c) None of
             Inl e \<Rightarrow> Inl e
           | Inr iv \<Rightarrow> Inr (sig @ [py_str (obj_value (c_value c))] @ iv)))"

definition get_effect :: "chronicles_problem \<Rightarrow> htn_effect \<Rightarrow> error + string list" where
  "get_effect P e =
     (case sv_signature P (e_sv e) of
        Inl err \<Rightarrow> Inl err
      | Inr sig \<Rightarrow>
          (case get_interval (e_interval e) None of
             Inl err \<Rightarrow> Inl err
           | Inr iv \<Rightarrow> Inr (sig @ [py_str (obj_value (e_value e))] @ iv)))"





definition add_state_variable ::
  "chronicles_problem \<Rightarrow> htn_state_variable \<Rightarrow> error option \<times> chronicles_problem" where
  "add_state_variable P htn_sv =
     (if set_member sv_eq sv_hash htn_sv (state_variables P) then (None, P)
      else case check_symbol P (sv_symbol htn_sv) of
             Some e \<Rightarrow> (Some e, P)
           | None \<Rightarrow>
               let P1 = P\<lparr>state_variables := set_add sv_eq sv_hash htn_sv (state_variables P)\<rparr>
               in case sv_signature P1 htn_sv of
                    Inl e \<Rightarrow> (Some e, P1)
                  | Inr sig \<Rightarrow>
                      if type_eq (sv_tpe htn_sv) HTN_BOOLEAN
                      then (None, builder (B_add_predicate sig) P1)
                      else if type_eq (sv_tpe htn_sv) HTN_INTEGER
                      then (None, builder (B_add_function sig) P1)
                      else (Some NotImplementedError, P1))"

text \<open>
  \<open>add_action\<close>. The constraint list starts as the rendering of the constraints of the
  action; when the list of rendered effects is not empty, the rendering of
  \<open>min_duration_eps\<close> of the action is appended to it.
\<close>

definition add_action ::
  "set_iteration \<Rightarrow> chronicles_problem \<Rightarrow> htn_task \<Rightarrow> error option \<times> chronicles_problem" where
  "add_action it P htn_action =
     (if set_member task_eq task_hash htn_action (actions P) then (None, P)
      else case check_symbol P (t_symbol htn_action) of
             Some e \<Rightarrow> (Some e, P)
           | None \<Rightarrow>
      (case check_context P of
         Some e \<Rightarrow> (Some e, P)
       | None \<Rightarrow>
      let P1 = P\<lparr>actions := set_add task_eq task_hash htn_action (actions P)\<rparr>
      in case task_signature_temporal it P1 htn_action None of
           Inl e \<Rightarrow> (Some e, P1)
         | Inr signature \<Rightarrow>
      (case map_res get_constraint (t_constraints htn_action) of
         Inl e \<Rightarrow> (Some e, P1)
       | Inr cstrs \<Rightarrow>
      (case map_res (get_condition P1) (t_conditions htn_action) of
         Inl e \<Rightarrow> (Some e, P1)
       | Inr conds \<Rightarrow>
      (case map_res (get_effect P1) (t_effects htn_action) of
         Inl e \<Rightarrow> (Some e, P1)
       | Inr effs \<Rightarrow>
           if length effs > 0 then
             (case min_duration_eps (t_interval htn_action) None of
                Inl e \<Rightarrow> (Some e, P1)
              | Inr c \<Rightarrow>
                  (case get_constraint c of
                     Inl e \<Rightarrow> (Some e, P1)
                   | Inr rc \<Rightarrow>
                       (None, builder (B_add_action signature (cstrs @ [rc]) conds effs) P1)))
           else (None, builder (B_add_action signature cstrs conds effs) P1))))))"

definition add_method ::
  "set_iteration \<Rightarrow> chronicles_problem \<Rightarrow> htn_method \<Rightarrow> error option \<times> chronicles_problem" where
  "add_method it P htn_method =
     (if set_member method_eq method_hash htn_method (methods P) then (None, P)
      else case check_symbol P (m_symbol htn_method) of
             Some e \<Rightarrow> (Some e, P)
           | None \<Rightarrow>
      (case check_context P of
         Some e \<Rightarrow> (Some e, P)
       | None \<Rightarrow>
      let P1 = P\<lparr>methods := set_add method_eq method_hash htn_method (methods P)\<rparr>
      in case method_signature_temporal it P1 htn_method of
           Inl e \<Rightarrow> (Some e, P1)
         | Inr signature \<Rightarrow>
      (case map_res get_constraint (m_constraints htn_method) of
         Inl e \<Rightarrow> (Some e, P1)
       | Inr cstrs \<Rightarrow>
      (case map_res (get_condition P1) (m_conditions htn_method) of
         Inl e \<Rightarrow> (Some e, P1)
       | Inr conds \<Rightarrow>
      (case task_signature it P1 (m_task htn_method) of
         Inl e \<Rightarrow> (Some e, P1)
       | Inr task \<Rightarrow>
      (case map_res (\<lambda>lmp. task_signature_temporal it P1 (lmp_task lmp) (Some (lmp_label lmp)))
              (label_mapping (m_task_network htn_method)) of
         Inl e \<Rightarrow> (Some e, P1)
       | Inr subtasks \<Rightarrow>
      (case map_res get_constraint (tn_constraints (m_task_network htn_method)) of
         Inl e \<Rightarrow> (Some e, P1)
       | Inr subtasks_constraints \<Rightarrow>
           (None, builder (B_add_method signature cstrs conds task subtasks
                             subtasks_constraints) P1))))))))"

definition add_initial_effect ::
  "chronicles_problem \<Rightarrow> htn_effect \<Rightarrow> error option \<times> chronicles_problem" where
  "add_initial_effect P htn_effect =
     (if set_member effect_eq effect_hash htn_effect (initial_effects P) then (None, P)
      else case check_symbol P (sv_symbol (e_sv htn_effect)) of
             Some e \<Rightarrow> (Some e, P)
           | None \<Rightarrow>
      (case check_context P of
         Some e \<Rightarrow> (Some e, P)
       | None \<Rightarrow>
      let P1 = P\<lparr>initial_effects :=
                    set_add effect_eq effect_hash htn_effect (initial_effects P)\<rparr>
      in case get_effect P1 htn_effect of
           Inl e \<Rightarrow> (Some e, P1)
         | Inr eff \<Rightarrow> (None, builder (B_add_initial_effect eff) P1)))"

definition set_goal ::
  "set_iteration \<Rightarrow> chronicles_problem \<Rightarrow> htn_task_network option
   \<Rightarrow> error option \<times> chronicles_problem" where
  "set_goal it P htn_task_network =
     (case htn_task_network of
        None \<Rightarrow> (None, P)
      | Some tn \<Rightarrow>
      (case check_symbol_table P of
         Some e \<Rightarrow> (Some e, P)
       | None \<Rightarrow>
      (case check_context P of
         Some e \<Rightarrow> (Some e, P)
       | None \<Rightarrow>
      (case map_res (\<lambda>lmp. task_signature_temporal it P (lmp_task lmp) (Some (lmp_label lmp)))
              (label_mapping tn) of
         Inl e \<Rightarrow> (Some e, P)
       | Inr tsks \<Rightarrow>
      (case map_res get_constraint (tn_constraints tn) of
         Inl e \<Rightarrow> (Some e, P)
       | Inr cs \<Rightarrow> (None, builder (B_add_goal tsks cs) P))))))"

section \<open>Language and domain\<close>









section \<open>Properties of equality\<close>

lemma py_value_eq_refl: "py_value_eq v v"
  by (cases v) simp_all

lemma type_eq_refl: "type_eq t t"
proof (induction t)
  case (HtnType n p)
  then show ?case by (cases p) auto
qed

lemma typed_object_eq_same_fields:
  "obj_value a = obj_value b \<Longrightarrow> obj_tpe a = obj_tpe b \<Longrightarrow> typed_object_eq a b"
  by (simp add: typed_object_eq_def py_value_eq_refl type_eq_refl)

text \<open>
  Claim C10. A variable and a constant with the same value and the same type are equal,
  in both directions, and each is found by a membership test in a set that stores the
  other. A variable (or a constant) of type \<open>__timepoint__\<close> that is not itself a
  timepoint equals an \<open>HtnTimepoint\<close> of the same value, whatever its delay, while the
  timepoint does not equal that object.
\<close>

theorem variable_eq_constant:
  "py_eq (HtnVariable v T) (HtnConstant v T)
   \<and> py_eq (HtnConstant v T) (HtnVariable v T)
   \<and> (HtnVariable v T \<in> set s \<longrightarrow> py_in (HtnConstant v T) s)
   \<and> (HtnConstant v T \<in> set s \<longrightarrow> py_in (HtnVariable v T) s)
   \<and> py_eq (HtnVariable v HTN_TIMEPOINT) (HtnTimepoint v HTN_TIMEPOINT d)
   \<and> \<not> py_eq (HtnTimepoint v HTN_TIMEPOINT d) (HtnVariable v HTN_TIMEPOINT)
   \<and> py_eq (HtnConstant v HTN_TIMEPOINT) (HtnTimepoint v HTN_TIMEPOINT d)
   \<and> \<not> py_eq (HtnTimepoint v HTN_TIMEPOINT d) (HtnConstant v HTN_TIMEPOINT)"
proof -
  have vc: "py_eq (HtnVariable v T) (HtnConstant v T)"
    by (simp add: py_eq_def typed_object_eq_same_fields)
  have cv: "py_eq (HtnConstant v T) (HtnVariable v T)"
    by (simp add: py_eq_def typed_object_eq_same_fields)
  have m1: "HtnVariable v T \<in> set s \<longrightarrow> py_in (HtnConstant v T) s"
    using vc by (auto simp: py_in_def set_member_def same_or_def list_ex_iff intro!: bexI [of _ "HtnVariable v T"])
  have m2: "HtnConstant v T \<in> set s \<longrightarrow> py_in (HtnVariable v T) s"
    using cv by (auto simp: py_in_def set_member_def same_or_def list_ex_iff intro!: bexI [of _ "HtnConstant v T"])
  have ot: "py_eq (HtnVariable v HTN_TIMEPOINT) (HtnTimepoint v HTN_TIMEPOINT d)"
    by (simp add: py_eq_def typed_object_eq_same_fields)
  have to: "\<not> py_eq (HtnTimepoint v HTN_TIMEPOINT d) (HtnVariable v HTN_TIMEPOINT)"
    by (simp add: py_eq_def)
  have ot': "py_eq (HtnConstant v HTN_TIMEPOINT) (HtnTimepoint v HTN_TIMEPOINT d)"
    by (simp add: py_eq_def typed_object_eq_same_fields)
  have to': "\<not> py_eq (HtnTimepoint v HTN_TIMEPOINT d) (HtnConstant v HTN_TIMEPOINT)"
    by (simp add: py_eq_def)
  from vc cv m1 m2 ot to ot' to' show ?thesis by blast
qed

theorem variable_eq_constant_witness:
  "HtnVariable (PStr ''r1'') (HtnType ''robot'' None)
     \<in> set [HtnVariable (PStr ''r1'') (HtnType ''robot'' None)]
   \<and> py_in (HtnConstant (PStr ''r1'') (HtnType ''robot'' None))
        [HtnVariable (PStr ''r1'') (HtnType ''robot'' None)]
   \<and> HtnConstant (PStr ''r1'') (HtnType ''robot'' None)
     \<in> set [HtnConstant (PStr ''r1'') (HtnType ''robot'' None)]
   \<and> py_in (HtnVariable (PStr ''r1'') (HtnType ''robot'' None))
        [HtnConstant (PStr ''r1'') (HtnType ''robot'' None)]"
  using variable_eq_constant [of "PStr ''r1''" "HtnType ''robot'' None"
      "[HtnVariable (PStr ''r1'') (HtnType ''robot'' None)]"]
    variable_eq_constant [of "PStr ''r1''" "HtnType ''robot'' None"
      "[HtnConstant (PStr ''r1'') (HtnType ''robot'' None)]"]
  by simp

text \<open>
  Claim C6. Equality of parametric symbols is not symmetric: the method only looks, for
  each parameter of the left operand, for an equal parameter of the right operand. With
  the parameters \<open>(a, a)\<close> on the left and \<open>(a, b)\<close> on the right the comparison
  succeeds, and it fails with the operands exchanged, although the two parameter lists
  do not hold the same elements.
\<close>

theorem parametric_symbol_eq_not_symmetric:
  "parametric_symbol_eq
     \<lparr>symbol = HtnSymbol ''at'',
      params = [HtnConstant (PStr ''a'') (HtnType ''loc'' None),
                HtnConstant (PStr ''a'') (HtnType ''loc'' None)]\<rparr>
     \<lparr>symbol = HtnSymbol ''at'',
      params = [HtnConstant (PStr ''a'') (HtnType ''loc'' None),
                HtnConstant (PStr ''b'') (HtnType ''loc'' None)]\<rparr>
   \<and> \<not> parametric_symbol_eq
     \<lparr>symbol = HtnSymbol ''at'',
      params = [HtnConstant (PStr ''a'') (HtnType ''loc'' None),
                HtnConstant (PStr ''b'') (HtnType ''loc'' None)]\<rparr>
     \<lparr>symbol = HtnSymbol ''at'',
      params = [HtnConstant (PStr ''a'') (HtnType ''loc'' None),
                HtnConstant (PStr ''a'') (HtnType ''loc'' None)]\<rparr>"
  by (simp add: parametric_symbol_eq_def find_match_def py_eq_def typed_object_eq_def)

section \<open>Dirac effects\<close>

lemma float_eval_neg_eps:
  "fadd (Float 0 0) (fneg HTN_EPSILON) = Float (- 3602879701896397) (- 55)"
  by (simp add: HTN_EPSILON_def HTN_TIME_SCALE_def int_truediv_def rnd_def
      round_half_even_def Let_def bitlen.simps canon.simps)

text \<open>
  Claim C3, as the code has it. For a state variable of boolean type, \<open>dirac\<close> returns
  two effects on that state variable: the first asserts the given value on the interval
  with \<^emph>\<open>both\<close> its start and its end moved back by \<open>HTN_EPSILON\<close>, the second asserts
  \<open>HTN_TRUE\<close> when the value equals \<open>HTN_FALSE\<close> and \<open>HTN_FALSE\<close> otherwise, on the
  interval as given. For any other type \<open>dirac\<close> raises \<open>TypeError\<close>.
\<close>

theorem dirac_effects:
  "(type_eq (sv_tpe sv) HTN_BOOLEAN \<longrightarrow>
      dirac sv val (HtnTemporalInterval s e) =
        Inr (HtnEffect sv val
               (HtnTemporalInterval (tp_add s (fneg HTN_EPSILON)) (tp_add e (fneg HTN_EPSILON))),
             HtnEffect sv (if py_eq val HTN_FALSE then HTN_TRUE else HTN_FALSE)
               (HtnTemporalInterval s e)))
   \<and> (\<not> type_eq (sv_tpe sv) HTN_BOOLEAN \<longrightarrow>
      dirac sv val (HtnTemporalInterval s e) = Inl TypeError)"
  by (simp add: dirac_def interval_sub_def tp_sub_def Let_def)

theorem dirac_effects_witness:
  "type_eq (sv_tpe (HtnStateVariable (HtnSymbol ''door_open'') [] HTN_BOOLEAN)) HTN_BOOLEAN
   \<and> dirac (HtnStateVariable (HtnSymbol ''door_open'') [] HTN_BOOLEAN) HTN_TRUE
       (HtnTemporalInterval (Timepoint TimepointC (PStr ''__s__0'') HTN_TIMEPOINT (Float 0 0))
          (Timepoint TimepointC (PStr ''__s__1'') HTN_TIMEPOINT (Float 0 0)))
     = Inr (HtnEffect (HtnStateVariable (HtnSymbol ''door_open'') [] HTN_BOOLEAN) HTN_TRUE
              (HtnTemporalInterval
                 (Timepoint TimepointC (PStr ''__s__0'') HTN_TIMEPOINT
                    (fadd (Float 0 0) (fneg HTN_EPSILON)))
                 (Timepoint TimepointC (PStr ''__s__1'') HTN_TIMEPOINT
                    (fadd (Float 0 0) (fneg HTN_EPSILON)))),
            HtnEffect (HtnStateVariable (HtnSymbol ''door_open'') [] HTN_BOOLEAN) HTN_FALSE
              (HtnTemporalInterval (Timepoint TimepointC (PStr ''__s__0'') HTN_TIMEPOINT (Float 0 0))
                 (Timepoint TimepointC (PStr ''__s__1'') HTN_TIMEPOINT (Float 0 0))))
   \<and> \<not> type_eq (sv_tpe (HtnStateVariable (HtnSymbol ''fuel'') [] HTN_INTEGER)) HTN_BOOLEAN
   \<and> dirac (HtnStateVariable (HtnSymbol ''fuel'') [] HTN_INTEGER) HTN_TRUE
       (HtnTemporalInterval (Timepoint TimepointC (PStr ''__s__0'') HTN_TIMEPOINT (Float 0 0))
          (Timepoint TimepointC (PStr ''__s__1'') HTN_TIMEPOINT (Float 0 0)))
     = Inl TypeError"
  using dirac_effects [of "HtnStateVariable (HtnSymbol ''door_open'') [] HTN_BOOLEAN" HTN_TRUE
      "Timepoint TimepointC (PStr ''__s__0'') HTN_TIMEPOINT (Float 0 0)"
      "Timepoint TimepointC (PStr ''__s__1'') HTN_TIMEPOINT (Float 0 0)"]
    dirac_effects [of "HtnStateVariable (HtnSymbol ''fuel'') [] HTN_INTEGER" HTN_TRUE
      "Timepoint TimepointC (PStr ''__s__0'') HTN_TIMEPOINT (Float 0 0)"
      "Timepoint TimepointC (PStr ''__s__1'') HTN_TIMEPOINT (Float 0 0)"]
  by (simp add: HTN_BOOLEAN_def HTN_INTEGER_def HTN_TRUE_def HTN_FALSE_def py_eq_def
      typed_object_eq_def)

text \<open>
  The first effect does not hold on \<open>[start, end - epsilon]\<close>: for the interval of
  \<open>at_start\<close>, with no delay on either end, the start of the first effect's interval
  carries the delay \<open>-0.1\<close> and so is not the start that was given.
\<close>

theorem dirac_start_is_shifted:
  "dirac (HtnStateVariable (HtnSymbol ''door_open'') [] HTN_BOOLEAN) HTN_TRUE
     (HtnTemporalInterval (Timepoint TimepointC (PStr ''__s__0'') HTN_TIMEPOINT (Float 0 0))
        (Timepoint TimepointC (PStr ''__s__1'') HTN_TIMEPOINT (Float 0 0)))
   = Inr (HtnEffect (HtnStateVariable (HtnSymbol ''door_open'') [] HTN_BOOLEAN) HTN_TRUE
            (HtnTemporalInterval
               (Timepoint TimepointC (PStr ''__s__0'') HTN_TIMEPOINT
                  (Float (- 3602879701896397) (- 55)))
               (Timepoint TimepointC (PStr ''__s__1'') HTN_TIMEPOINT
                  (Float (- 3602879701896397) (- 55)))),
          HtnEffect (HtnStateVariable (HtnSymbol ''door_open'') [] HTN_BOOLEAN) HTN_FALSE
            (HtnTemporalInterval (Timepoint TimepointC (PStr ''__s__0'') HTN_TIMEPOINT (Float 0 0))
               (Timepoint TimepointC (PStr ''__s__1'') HTN_TIMEPOINT (Float 0 0))))
   \<and> \<not> py_eq (TP (Timepoint TimepointC (PStr ''__s__0'') HTN_TIMEPOINT
                     (Float (- 3602879701896397) (- 55))))
              (TP (Timepoint TimepointC (PStr ''__s__0'') HTN_TIMEPOINT (Float 0 0)))"
proof -
  have t: "type_eq HTN_BOOLEAN HTN_BOOLEAN"
    by (simp add: HTN_BOOLEAN_def)
  have o: "\<not> py_eq HTN_TRUE HTN_FALSE"
    by (simp add: HTN_TRUE_def HTN_FALSE_def py_eq_def typed_object_eq_def)
  show ?thesis
    using t o
    by (simp add: dirac_def interval_sub_def tp_sub_def Let_def float_eval_neg_eps
        py_eq_def feq_def)
qed

section \<open>Timepoint addition and rendering\<close>






lemma float_eval_scale: "float_of_int HTN_TIME_SCALE = Float 5 1"
  by (simp add: HTN_TIME_SCALE_def float_of_int_def rnd_def round_half_even_def Let_def
      bitlen.simps canon.simps)






section \<open>Lowering an action\<close>

lemma map_res_length: "map_res f xs = Inr ys \<Longrightarrow> length ys = length xs"
  by (induction xs arbitrary: ys) (auto split: sum.splits)

lemma min_duration_eps_value:
  "min_duration_eps I None =
     Inr (HtnTemporalConstraint (i_end I) (tp_add (i_start I) HTN_EPSILON) ''>='' None None)"
  by (simp add: min_duration_eps_def min_duration_def ge_def constraint_make_def)

lemma float_eval_zero_scaled:
  "py_int (fmul (Float 0 0) (float_of_int HTN_TIME_SCALE)) = Inr 0"
  by (simp add: float_eval_scale rnd_def round_half_even_def Let_def bitlen.simps canon.simps)

lemma float_eval_eps_scaled:
  "py_int (fmul (fadd (Float 0 0) HTN_EPSILON) (float_of_int HTN_TIME_SCALE)) = Inr 1"
  by (simp only: float_eval_scale)
    (simp add: HTN_EPSILON_def HTN_TIME_SCALE_def int_truediv_def rnd_def
      round_half_even_def Let_def bitlen.simps canon.simps)

lemma str_of_int_0: "str_of_int 0 = ''0''"
  by (simp add: str_of_int_def str_of_nat.simps digit_char_def)

lemma str_of_int_1: "str_of_int 1 = ''1''"
  by (simp add: str_of_int_def str_of_nat.simps digit_char_def)

lemma get_timepoint_no_delay:
  "get_timepoint (Timepoint c (PStr v) HTN_TIMEPOINT (Float 0 0)) None
     = Inr (v @ '' + 0 - __timepoint__'')"
  by (simp add: get_timepoint_def float_eval_zero_scaled str_of_int_0 HTN_TIMEPOINT_def)

lemma get_timepoint_eps_delay:
  "get_timepoint (Timepoint c (PStr v) HTN_TIMEPOINT (fadd (Float 0 0) HTN_EPSILON)) None
     = Inr (v @ '' + 1 - __timepoint__'')"
  by (simp only: get_timepoint_def float_eval_eps_scaled str_of_int_1
      HTN_TIMEPOINT_def Let_def htn_timepoint.sel htn_type.sel py_str.simps option.case
      sum.case)
    simp

text \<open>
  Claim C7. When \<open>add_action\<close> lowers an action that is not registered yet and raises
  nothing, it makes exactly one call \<open>add_action\<close> on the builder. The constraint list
  of that call is the rendering of the constraints of the action, in order, followed,
  when the action has at least one effect, by the single constraint
  \<open>end >= start + HTN_EPSILON\<close> on the timepoints of the action, rendered without
  labels; with no effect nothing is appended.
\<close>

theorem add_action_min_duration:
  assumes "\<not> set_member task_eq task_hash a (actions P)"
    and "add_action it P a = (None, P')"
  shows "\<exists>sig cstrs conds effs e s.
           problem P' =
             problem P @
               [B_add_action sig
                  (cstrs @ (if t_effects a = [] then [] else [[e, ''>='', s]]))
                  conds effs]
           \<and> map_res get_constraint (t_constraints a) = Inr cstrs
           \<and> (if t_effects a = [] then True
               else get_timepoint (i_end (t_interval a)) None = Inr e
                    \<and> get_timepoint (tp_add (i_start (t_interval a)) HTN_EPSILON) None = Inr s)
           \<and> length conds = length (t_conditions a) \<and> length effs = length (t_effects a)"
proof -
  let ?P1 = "P\<lparr>actions := set_add task_eq task_hash a (actions P)\<rparr>"
  from assms obtain sig cstrs conds effs where
    c: "map_res get_constraint (t_constraints a) = Inr cstrs" and
    d: "map_res (get_condition ?P1) (t_conditions a) = Inr conds" and
    f: "map_res (get_effect ?P1) (t_effects a) = Inr effs" and
    r: "(effs = [] \<and> P' = builder (B_add_action sig cstrs conds effs) ?P1)
        \<or> (effs \<noteq> []
            \<and> (\<exists>e s. get_timepoint (i_end (t_interval a)) None = Inr e
                  \<and> get_timepoint (tp_add (i_start (t_interval a)) HTN_EPSILON) None = Inr s
                  \<and> P' = builder (B_add_action sig (cstrs @ [[e, ''>='', s]]) conds effs) ?P1))"
    by (auto simp: add_action_def Let_def min_duration_eps_value
        split: option.splits sum.splits if_splits)
  have ld: "length conds = length (t_conditions a)"
    using d by (rule map_res_length)
  have le: "length effs = length (t_effects a)"
    using f by (rule map_res_length)
  show ?thesis
  proof (cases "t_effects a = []")
    case True
    then have "P' = builder (B_add_action sig cstrs conds effs) ?P1"
      using r le by auto
    then have "problem P' = problem P @ [B_add_action sig (cstrs @ []) conds effs]"
      by (simp add: builder_def)
    then show ?thesis
      using True c ld le by auto
  next
    case False
    then have "effs \<noteq> []"
      using le by auto
    with r obtain e s where
      e: "get_timepoint (i_end (t_interval a)) None = Inr e" and
      s: "get_timepoint (tp_add (i_start (t_interval a)) HTN_EPSILON) None = Inr s" and
      q: "P' = builder (B_add_action sig (cstrs @ [[e, ''>='', s]]) conds effs) ?P1"
      by auto
    from q have "problem P' = problem P @ [B_add_action sig (cstrs @ [[e, ''>='', s]]) conds effs]"
      by (simp add: builder_def)
    then show ?thesis
      using False c ld le e s by auto
  qed
qed

theorem add_action_min_duration_witness:
  "\<not> set_member task_eq task_hash
       (HtnPrimitiveTask (HtnSymbol ''pick'') [HtnVariable (PStr ''?r'') (HtnType ''robot'' None)]
          (HtnTemporalInterval (Timepoint TimepointC (PStr ''__s__0'') HTN_TIMEPOINT (Float 0 0))
             (Timepoint TimepointC (PStr ''__e__1'') HTN_TIMEPOINT (Float 0 0)))
          [] []
          [HtnEffect
             (HtnStateVariable (HtnSymbol ''holding'')
                [HtnVariable (PStr ''?r'') (HtnType ''robot'' None)] HTN_BOOLEAN)
             HTN_TRUE
             (HtnTemporalInterval (Timepoint TimepointC (PStr ''__e__2'') HTN_TIMEPOINT (Float 0 0))
                (Timepoint TimepointC (PStr ''__e__3'') HTN_TIMEPOINT (Float 0 0)))])
       (actions (init\<lparr>symbol_table_created := True, context_created := True,
              symbols := [HtnSymbol ''pick'', HtnSymbol ''holding'']\<rparr>))
   \<and> (\<exists>sig conds effs.
         problem (snd (add_action \<lparr>iter_sv = rev, iter_obj = rev\<rparr>
                    (init\<lparr>symbol_table_created := True, context_created := True,
              symbols := [HtnSymbol ''pick'', HtnSymbol ''holding'']\<rparr>)
                    (HtnPrimitiveTask (HtnSymbol ''pick'') [HtnVariable (PStr ''?r'') (HtnType ''robot'' None)]
          (HtnTemporalInterval (Timepoint TimepointC (PStr ''__s__0'') HTN_TIMEPOINT (Float 0 0))
             (Timepoint TimepointC (PStr ''__e__1'') HTN_TIMEPOINT (Float 0 0)))
          [] []
          [HtnEffect
             (HtnStateVariable (HtnSymbol ''holding'')
                [HtnVariable (PStr ''?r'') (HtnType ''robot'' None)] HTN_BOOLEAN)
             HTN_TRUE
             (HtnTemporalInterval (Timepoint TimepointC (PStr ''__e__2'') HTN_TIMEPOINT (Float 0 0))
                (Timepoint TimepointC (PStr ''__e__3'') HTN_TIMEPOINT (Float 0 0)))])))
         = [B_add_action sig
              [[''__e__1 + 0 - __timepoint__'', ''>='', ''__s__0 + 1 - __timepoint__'']]
              conds effs]
         \<and> length conds = 0 \<and> length effs = 1)"
proof -
  let ?P = "init\<lparr>symbol_table_created := True, context_created := True,
              symbols := [HtnSymbol ''pick'', HtnSymbol ''holding'']\<rparr>"
  let ?a = "HtnPrimitiveTask (HtnSymbol ''pick'') [HtnVariable (PStr ''?r'') (HtnType ''robot'' None)]
          (HtnTemporalInterval (Timepoint TimepointC (PStr ''__s__0'') HTN_TIMEPOINT (Float 0 0))
             (Timepoint TimepointC (PStr ''__e__1'') HTN_TIMEPOINT (Float 0 0)))
          [] []
          [HtnEffect
             (HtnStateVariable (HtnSymbol ''holding'')
                [HtnVariable (PStr ''?r'') (HtnType ''robot'' None)] HTN_BOOLEAN)
             HTN_TRUE
             (HtnTemporalInterval (Timepoint TimepointC (PStr ''__e__2'') HTN_TIMEPOINT (Float 0 0))
                (Timepoint TimepointC (PStr ''__e__3'') HTN_TIMEPOINT (Float 0 0)))]"
  let ?it = "\<lparr>iter_sv = rev, iter_obj = rev\<rparr>"
  have m: "\<not> set_member task_eq task_hash ?a (actions ?P)"
    by (simp add: init_def set_member_def)
  have r: "fst (add_action ?it ?P ?a) = None"
    by (simp add: add_action_def init_def set_member_def same_or_def check_symbol_def
        check_symbol_table_def check_context_def symbol_hash_def set_add_def
        task_signature_temporal_def get_signature_temporal_def get_signature_def
        get_effect_def sv_signature_def min_duration_eps_value Let_def
        get_interval_def get_typed_object_def get_timepoint_no_delay get_timepoint_eps_delay
        task_state_variables_def set_update_def list_contains_def)
  then have e: "add_action ?it ?P ?a = (None, snd (add_action ?it ?P ?a))"
    by (metis prod.collapse)
  have p: "problem ?P = []"
    by (simp add: init_def)
  from add_action_min_duration [OF m e]
  show ?thesis
    using m
    by (simp only: p htn_task.sel htn_temporal_interval.sel tp_add.simps
        get_timepoint_no_delay get_timepoint_eps_delay)
      auto
qed

section \<open>Labels in temporal signatures\<close>

lemma get_timepoint_label:
  "get_timepoint tp (Some l) =
     (case py_int (fmul (delay tp) (float_of_int HTN_TIME_SCALE)) of
        Inl e \<Rightarrow> Inl e
      | Inr n \<Rightarrow>
          Inr (py_str (tp_value tp) @ lab_value l @ '' + '' @ str_of_int n
                 @ '' - '' @ name (tp_tpe tp)))"
  by (simp add: get_timepoint_def split: sum.splits)

lemma get_timepoint_label_inj:
  assumes "get_timepoint tp (Some l1) = Inr a" and "get_timepoint tp (Some l2) = Inr a"
  shows "l1 = l2"
proof -
  from assms have "lab_value l1 = lab_value l2"
    by (auto simp: get_timepoint_label split: sum.splits)
  then show ?thesis
    by (simp add: htn_label.expand)
qed

lemma task_signature_temporal_split:
  "task_signature_temporal it P t lab =
     (case task_signature it P t of
        Inl e \<Rightarrow> Inl e
      | Inr sig \<Rightarrow>
          (case get_interval (t_interval t) lab of
             Inl e \<Rightarrow> Inl e
           | Inr iv \<Rightarrow> Inr (sig @ iv)))"
  by (simp add: task_signature_temporal_def task_signature_def get_signature_temporal_def
      split: sum.splits)

lemma map_res_nth:
  "map_res f xs = Inr ys \<Longrightarrow> i < length xs \<Longrightarrow> f (xs ! i) = Inr (ys ! i)"
proof (induction xs arbitrary: ys i)
  case Nil
  then show ?case by simp
next
  case (Cons x xs)
  then show ?case
    by (cases i) (auto split: sum.splits)
qed

lemma labelled_signatures_differ:
  assumes "task_signature_temporal it P t (Some l1) = Inr s1"
    and "task_signature_temporal it P t (Some l2) = Inr s2"
    and "l1 \<noteq> l2"
  shows "\<exists>sig iv1 iv2.
           get_interval (t_interval t) (Some l1) = Inr iv1
           \<and> get_interval (t_interval t) (Some l2) = Inr iv2
           \<and> s1 = sig @ iv1 \<and> s2 = sig @ iv2 \<and> s1 \<noteq> s2"
proof -
  from assms(1) obtain sig iv1 where
    sg: "task_signature it P t = Inr sig" and
    i1: "get_interval (t_interval t) (Some l1) = Inr iv1" and
    e1: "s1 = sig @ iv1"
    by (auto simp: task_signature_temporal_split split: sum.splits)
  from assms(2) sg obtain iv2 where
    i2: "get_interval (t_interval t) (Some l2) = Inr iv2" and
    e2: "s2 = sig @ iv2"
    by (auto simp: task_signature_temporal_split split: sum.splits)
  from i1 obtain a1 b1 where
    a1: "get_timepoint (i_start (t_interval t)) (Some l1) = Inr a1" and
    v1: "iv1 = [a1, b1]"
    by (auto simp: get_interval_def split: sum.splits)
  from i2 obtain a2 b2 where
    a2: "get_timepoint (i_start (t_interval t)) (Some l2) = Inr a2" and
    v2: "iv2 = [a2, b2]"
    by (auto simp: get_interval_def split: sum.splits)
  have "a1 \<noteq> a2"
    using a1 a2 assms(3) get_timepoint_label_inj by blast
  then have "s1 \<noteq> s2"
    using e1 e2 v1 v2 by simp
  then show ?thesis
    using i1 i2 e1 e2 by blast
qed

text \<open>
  Claim C1. Take one task and two distinct labels. Either the temporal signature cannot
  be built and both calls raise the same exception, or both are the signature of the
  task followed by the rendered start and the rendered end, where the label stands right
  after the value of the timepoint and nothing else depends on the label; the two lists
  are then different. The same holds where a task network is lowered: when \<open>set_goal\<close>
  or \<open>add_method\<close> lowers a network in which two label-mapping pairs bind distinct
  labels to the same task and raises nothing, it makes one call on the builder, and the
  two entries of the list of subtasks in that call are one signature followed by the
  interval rendered with the one and with the other label, and are different.
\<close>

theorem label_disambiguates_signature:
  "(l1 \<noteq> l2 \<longrightarrow>
      (case task_signature it P t of
         Inl e \<Rightarrow>
           task_signature_temporal it P t (Some l1) = Inl e
           \<and> task_signature_temporal it P t (Some l2) = Inl e
       | Inr sig \<Rightarrow>
           (case py_int (fmul (delay (i_start (t_interval t))) (float_of_int HTN_TIME_SCALE)) of
              Inl e \<Rightarrow>
                task_signature_temporal it P t (Some l1) = Inl e
                \<and> task_signature_temporal it P t (Some l2) = Inl e
            | Inr ns \<Rightarrow>
                (case py_int (fmul (delay (i_end (t_interval t))) (float_of_int HTN_TIME_SCALE)) of
                   Inl e \<Rightarrow>
                     task_signature_temporal it P t (Some l1) = Inl e
                     \<and> task_signature_temporal it P t (Some l2) = Inl e
                 | Inr ne \<Rightarrow>
                     task_signature_temporal it P t (Some l1) =
                       Inr (sig @
                         [py_str (tp_value (i_start (t_interval t))) @ lab_value l1 @ '' + '' @ str_of_int ns
                    @ '' - '' @ name (tp_tpe (i_start (t_interval t))),
                          py_str (tp_value (i_end (t_interval t))) @ lab_value l1 @ '' + '' @ str_of_int ne
                    @ '' - '' @ name (tp_tpe (i_end (t_interval t)))])
                     \<and> task_signature_temporal it P t (Some l2) =
                       Inr (sig @
                         [py_str (tp_value (i_start (t_interval t))) @ lab_value l2 @ '' + '' @ str_of_int ns
                    @ '' - '' @ name (tp_tpe (i_start (t_interval t))),
                          py_str (tp_value (i_end (t_interval t))) @ lab_value l2 @ '' + '' @ str_of_int ne
                    @ '' - '' @ name (tp_tpe (i_end (t_interval t)))])
                     \<and> task_signature_temporal it P t (Some l1)
                         \<noteq> task_signature_temporal it P t (Some l2)))))
   \<and> (set_goal it P (Some tn) = (None, P') \<and> i < length (label_mapping tn)
        \<and> j < length (label_mapping tn)
        \<and> lmp_task (label_mapping tn ! i) = lmp_task (label_mapping tn ! j)
        \<and> lmp_label (label_mapping tn ! i) \<noteq> lmp_label (label_mapping tn ! j) \<longrightarrow>
      (\<exists>tsks cs sig ivi ivj.
          problem P' = problem P @ [B_add_goal tsks cs]
          \<and> length tsks = length (label_mapping tn)
          \<and> get_interval (t_interval (lmp_task (label_mapping tn ! i)))
                (Some (lmp_label (label_mapping tn ! i))) = Inr ivi
          \<and> get_interval (t_interval (lmp_task (label_mapping tn ! i)))
                (Some (lmp_label (label_mapping tn ! j))) = Inr ivj
          \<and> tsks ! i = sig @ ivi \<and> tsks ! j = sig @ ivj
          \<and> tsks ! i \<noteq> tsks ! j))
   \<and> (\<not> set_member method_eq method_hash m (methods P)
        \<and> add_method it P m = (None, Q) \<and> k < length (label_mapping (m_task_network m))
        \<and> n < length (label_mapping (m_task_network m))
        \<and> lmp_task (label_mapping (m_task_network m) ! k) = lmp_task (label_mapping (m_task_network m) ! n)
        \<and> lmp_label (label_mapping (m_task_network m) ! k) \<noteq> lmp_label (label_mapping (m_task_network m) ! n) \<longrightarrow>
      (\<exists>sg cs cd tk subtasks sc sig ivk ivn.
          problem Q = problem P @ [B_add_method sg cs cd tk subtasks sc]
          \<and> length subtasks = length (label_mapping (m_task_network m))
          \<and> get_interval (t_interval (lmp_task (label_mapping (m_task_network m) ! k)))
                (Some (lmp_label (label_mapping (m_task_network m) ! k))) = Inr ivk
          \<and> get_interval (t_interval (lmp_task (label_mapping (m_task_network m) ! k)))
                (Some (lmp_label (label_mapping (m_task_network m) ! n))) = Inr ivn
          \<and> subtasks ! k = sig @ ivk \<and> subtasks ! n = sig @ ivn
          \<and> subtasks ! k \<noteq> subtasks ! n))"
proof (intro conjI impI)
  assume d: "l1 \<noteq> l2"
  show "(case task_signature it P t of
         Inl e \<Rightarrow>
           task_signature_temporal it P t (Some l1) = Inl e
           \<and> task_signature_temporal it P t (Some l2) = Inl e
       | Inr sig \<Rightarrow>
           (case py_int (fmul (delay (i_start (t_interval t))) (float_of_int HTN_TIME_SCALE)) of
              Inl e \<Rightarrow>
                task_signature_temporal it P t (Some l1) = Inl e
                \<and> task_signature_temporal it P t (Some l2) = Inl e
            | Inr ns \<Rightarrow>
                (case py_int (fmul (delay (i_end (t_interval t))) (float_of_int HTN_TIME_SCALE)) of
                   Inl e \<Rightarrow>
                     task_signature_temporal it P t (Some l1) = Inl e
                     \<and> task_signature_temporal it P t (Some l2) = Inl e
                 | Inr ne \<Rightarrow>
                     task_signature_temporal it P t (Some l1) =
                       Inr (sig @
                         [py_str (tp_value (i_start (t_interval t))) @ lab_value l1 @ '' + '' @ str_of_int ns
                    @ '' - '' @ name (tp_tpe (i_start (t_interval t))),
                          py_str (tp_value (i_end (t_interval t))) @ lab_value l1 @ '' + '' @ str_of_int ne
                    @ '' - '' @ name (tp_tpe (i_end (t_interval t)))])
                     \<and> task_signature_temporal it P t (Some l2) =
                       Inr (sig @
                         [py_str (tp_value (i_start (t_interval t))) @ lab_value l2 @ '' + '' @ str_of_int ns
                    @ '' - '' @ name (tp_tpe (i_start (t_interval t))),
                          py_str (tp_value (i_end (t_interval t))) @ lab_value l2 @ '' + '' @ str_of_int ne
                    @ '' - '' @ name (tp_tpe (i_end (t_interval t)))])
                     \<and> task_signature_temporal it P t (Some l1)
                         \<noteq> task_signature_temporal it P t (Some l2))))"
    using d
    by (auto simp: task_signature_temporal_split get_interval_def get_timepoint_label
        htn_label.expand split: sum.splits)
next
  assume a: "set_goal it P (Some tn) = (None, P') \<and> i < length (label_mapping tn)
        \<and> j < length (label_mapping tn)
        \<and> lmp_task (label_mapping tn ! i) = lmp_task (label_mapping tn ! j)
        \<and> lmp_label (label_mapping tn ! i) \<noteq> lmp_label (label_mapping tn ! j)"
  let ?f = "\<lambda>lmp. task_signature_temporal it P (lmp_task lmp) (Some (lmp_label lmp))"
  let ?t = "lmp_task (label_mapping tn ! i)"
  let ?li = "lmp_label (label_mapping tn ! i)"
  let ?lj = "lmp_label (label_mapping tn ! j)"
  from a obtain tsks cs where
    m: "map_res ?f (label_mapping tn) = Inr tsks" and
    p: "problem P' = problem P @ [B_add_goal tsks cs]"
    by (auto simp: set_goal_def builder_def split: option.splits sum.splits)
  have len: "length tsks = length (label_mapping tn)"
    using m by (rule map_res_length)
  have fi: "task_signature_temporal it P ?t (Some ?li) = Inr (tsks ! i)"
    using map_res_nth [OF m, of i] a by simp
  have fj: "task_signature_temporal it P ?t (Some ?lj) = Inr (tsks ! j)"
    using map_res_nth [OF m, of j] a by simp
  from labelled_signatures_differ [OF fi fj] a p len
  show "\<exists>tsks cs sig ivi ivj.
          problem P' = problem P @ [B_add_goal tsks cs]
          \<and> length tsks = length (label_mapping tn)
          \<and> get_interval (t_interval (lmp_task (label_mapping tn ! i)))
                (Some (lmp_label (label_mapping tn ! i))) = Inr ivi
          \<and> get_interval (t_interval (lmp_task (label_mapping tn ! i)))
                (Some (lmp_label (label_mapping tn ! j))) = Inr ivj
          \<and> tsks ! i = sig @ ivi \<and> tsks ! j = sig @ ivj
          \<and> tsks ! i \<noteq> tsks ! j"
    by blast
next
  assume a: "\<not> set_member method_eq method_hash m (methods P)
        \<and> add_method it P m = (None, Q) \<and> k < length (label_mapping (m_task_network m))
        \<and> n < length (label_mapping (m_task_network m))
        \<and> lmp_task (label_mapping (m_task_network m) ! k) = lmp_task (label_mapping (m_task_network m) ! n)
        \<and> lmp_label (label_mapping (m_task_network m) ! k) \<noteq> lmp_label (label_mapping (m_task_network m) ! n)"
  let ?P1 = "P\<lparr>methods := set_add method_eq method_hash m (methods P)\<rparr>"
  let ?f = "\<lambda>lmp. task_signature_temporal it ?P1 (lmp_task lmp) (Some (lmp_label lmp))"
  let ?lm = "label_mapping (m_task_network m)"
  let ?t = "lmp_task (?lm ! k)"
  let ?li = "lmp_label (?lm ! k)"
  let ?lj = "lmp_label (?lm ! n)"
  from a obtain sg cs cd tk subtasks sc where
    m: "map_res ?f ?lm = Inr subtasks" and
    p: "problem Q = problem P @ [B_add_method sg cs cd tk subtasks sc]"
    by (auto simp: add_method_def Let_def builder_def split: option.splits sum.splits)
  have len: "length subtasks = length ?lm"
    using m by (rule map_res_length)
  have fi: "task_signature_temporal it ?P1 ?t (Some ?li) = Inr (subtasks ! k)"
    using map_res_nth [OF m, of k] a by simp
  have fj: "task_signature_temporal it ?P1 ?t (Some ?lj) = Inr (subtasks ! n)"
    using map_res_nth [OF m, of n] a by simp
  from labelled_signatures_differ [OF fi fj] a p len
  show "\<exists>sg cs cd tk subtasks sc sig ivk ivn.
          problem Q = problem P @ [B_add_method sg cs cd tk subtasks sc]
          \<and> length subtasks = length (label_mapping (m_task_network m))
          \<and> get_interval (t_interval (lmp_task (label_mapping (m_task_network m) ! k)))
                (Some (lmp_label (label_mapping (m_task_network m) ! k))) = Inr ivk
          \<and> get_interval (t_interval (lmp_task (label_mapping (m_task_network m) ! k)))
                (Some (lmp_label (label_mapping (m_task_network m) ! n))) = Inr ivn
          \<and> subtasks ! k = sig @ ivk \<and> subtasks ! n = sig @ ivn
          \<and> subtasks ! k \<noteq> subtasks ! n"
    by blast
qed

theorem label_disambiguates_signature_witness:
  "HtnLabel ''l1'' \<noteq> HtnLabel ''l2''
   \<and> task_signature_temporal \<lparr>iter_sv = rev, iter_obj = rev\<rparr>
         (init\<lparr>symbol_table_created := True, context_created := True, symbols :=
         [HtnSymbol ''go'', HtnSymbol ''deliver'', HtnSymbol ''m_deliver'']\<rparr>)
         (HtnCompoundTask (HtnSymbol ''go'') [HtnVariable (PStr ''?r'') (HtnType ''robot''
         None)] (HtnTemporalInterval (Timepoint TimepointC (PStr ''__d__0'') HTN_TIMEPOINT
         (Float 0 0)) (Timepoint TimepointC (PStr ''__d__1'') HTN_TIMEPOINT (Float 0 0))))
         (Some (HtnLabel ''l1'')) = Inr [''go'', ''?r - robot'',
         ''__d__0l1 + 0 - __timepoint__'', ''__d__1l1 + 0 - __timepoint__'']
   \<and> task_signature_temporal \<lparr>iter_sv = rev, iter_obj = rev\<rparr>
         (init\<lparr>symbol_table_created := True, context_created := True, symbols :=
         [HtnSymbol ''go'', HtnSymbol ''deliver'', HtnSymbol ''m_deliver'']\<rparr>)
         (HtnCompoundTask (HtnSymbol ''go'') [HtnVariable (PStr ''?r'') (HtnType ''robot''
         None)] (HtnTemporalInterval (Timepoint TimepointC (PStr ''__d__0'') HTN_TIMEPOINT
         (Float 0 0)) (Timepoint TimepointC (PStr ''__d__1'') HTN_TIMEPOINT (Float 0 0))))
         (Some (HtnLabel ''l2'')) = Inr [''go'', ''?r - robot'',
         ''__d__0l2 + 0 - __timepoint__'', ''__d__1l2 + 0 - __timepoint__'']
   \<and> fst (set_goal \<lparr>iter_sv = rev, iter_obj = rev\<rparr>
         (init\<lparr>symbol_table_created := True, context_created := True, symbols :=
         [HtnSymbol ''go'', HtnSymbol ''deliver'', HtnSymbol ''m_deliver'']\<rparr>) (Some
         (HtnTaskNetwork [HtnLabelMappingPair (HtnLabel ''l1'') (HtnCompoundTask (HtnSymbol
         ''go'') [HtnVariable (PStr ''?r'') (HtnType ''robot'' None)] (HtnTemporalInterval
         (Timepoint TimepointC (PStr ''__d__0'') HTN_TIMEPOINT (Float 0 0)) (Timepoint
         TimepointC (PStr ''__d__1'') HTN_TIMEPOINT (Float 0 0)))), HtnLabelMappingPair
         (HtnLabel ''l2'') (HtnCompoundTask (HtnSymbol ''go'') [HtnVariable (PStr ''?r'')
         (HtnType ''robot'' None)] (HtnTemporalInterval (Timepoint TimepointC (PStr ''__d__0'')
         HTN_TIMEPOINT (Float 0 0)) (Timepoint TimepointC (PStr ''__d__1'') HTN_TIMEPOINT
         (Float 0 0))))] []))) = None
   \<and> (\<exists>tsks cs. problem (snd (set_goal \<lparr>iter_sv = rev, iter_obj = rev\<rparr>
         (init\<lparr>symbol_table_created := True, context_created := True, symbols :=
         [HtnSymbol ''go'', HtnSymbol ''deliver'', HtnSymbol ''m_deliver'']\<rparr>) (Some
         (HtnTaskNetwork [HtnLabelMappingPair (HtnLabel ''l1'') (HtnCompoundTask (HtnSymbol
         ''go'') [HtnVariable (PStr ''?r'') (HtnType ''robot'' None)] (HtnTemporalInterval
         (Timepoint TimepointC (PStr ''__d__0'') HTN_TIMEPOINT (Float 0 0)) (Timepoint
         TimepointC (PStr ''__d__1'') HTN_TIMEPOINT (Float 0 0)))), HtnLabelMappingPair
         (HtnLabel ''l2'') (HtnCompoundTask (HtnSymbol ''go'') [HtnVariable (PStr ''?r'')
         (HtnType ''robot'' None)] (HtnTemporalInterval (Timepoint TimepointC (PStr ''__d__0'')
         HTN_TIMEPOINT (Float 0 0)) (Timepoint TimepointC (PStr ''__d__1'') HTN_TIMEPOINT
         (Float 0 0))))] [])))) = [B_add_goal tsks cs] \<and> length tsks = 2 \<and> tsks ! 0
         \<noteq> tsks ! 1)
   \<and> \<not> set_member method_eq method_hash (HtnMethod (HtnCompoundTask (HtnSymbol
         ''deliver'') [HtnVariable (PStr ''?r'') (HtnType ''robot'' None)] (HtnTemporalInterval
         (Timepoint TimepointC (PStr ''__d__2'') HTN_TIMEPOINT (Float 0 0)) (Timepoint
         TimepointC (PStr ''__d__3'') HTN_TIMEPOINT (Float 0 0)))) (HtnTaskNetwork
         [HtnLabelMappingPair (HtnLabel ''l1'') (HtnCompoundTask (HtnSymbol ''go'')
         [HtnVariable (PStr ''?r'') (HtnType ''robot'' None)] (HtnTemporalInterval (Timepoint
         TimepointC (PStr ''__d__0'') HTN_TIMEPOINT (Float 0 0)) (Timepoint TimepointC (PStr
         ''__d__1'') HTN_TIMEPOINT (Float 0 0)))), HtnLabelMappingPair (HtnLabel ''l2'')
         (HtnCompoundTask (HtnSymbol ''go'') [HtnVariable (PStr ''?r'') (HtnType ''robot''
         None)] (HtnTemporalInterval (Timepoint TimepointC (PStr ''__d__0'') HTN_TIMEPOINT
         (Float 0 0)) (Timepoint TimepointC (PStr ''__d__1'') HTN_TIMEPOINT (Float 0 0))))] [])
         [] [] (HtnSymbol ''m_deliver'')) (methods (init\<lparr>symbol_table_created := True,
         context_created := True, symbols := [HtnSymbol ''go'', HtnSymbol ''deliver'',
         HtnSymbol ''m_deliver'']\<rparr>))
   \<and> fst (add_method \<lparr>iter_sv = rev, iter_obj = rev\<rparr>
         (init\<lparr>symbol_table_created := True, context_created := True, symbols :=
         [HtnSymbol ''go'', HtnSymbol ''deliver'', HtnSymbol ''m_deliver'']\<rparr>) (HtnMethod
         (HtnCompoundTask (HtnSymbol ''deliver'') [HtnVariable (PStr ''?r'') (HtnType ''robot''
         None)] (HtnTemporalInterval (Timepoint TimepointC (PStr ''__d__2'') HTN_TIMEPOINT
         (Float 0 0)) (Timepoint TimepointC (PStr ''__d__3'') HTN_TIMEPOINT (Float 0 0))))
         (HtnTaskNetwork [HtnLabelMappingPair (HtnLabel ''l1'') (HtnCompoundTask (HtnSymbol
         ''go'') [HtnVariable (PStr ''?r'') (HtnType ''robot'' None)] (HtnTemporalInterval
         (Timepoint TimepointC (PStr ''__d__0'') HTN_TIMEPOINT (Float 0 0)) (Timepoint
         TimepointC (PStr ''__d__1'') HTN_TIMEPOINT (Float 0 0)))), HtnLabelMappingPair
         (HtnLabel ''l2'') (HtnCompoundTask (HtnSymbol ''go'') [HtnVariable (PStr ''?r'')
         (HtnType ''robot'' None)] (HtnTemporalInterval (Timepoint TimepointC (PStr ''__d__0'')
         HTN_TIMEPOINT (Float 0 0)) (Timepoint TimepointC (PStr ''__d__1'') HTN_TIMEPOINT
         (Float 0 0))))] []) [] [] (HtnSymbol ''m_deliver''))) = None
   \<and> (\<exists>sg cs cd tk subtasks sc. problem (snd (add_method \<lparr>iter_sv = rev,
         iter_obj = rev\<rparr> (init\<lparr>symbol_table_created := True, context_created :=
         True, symbols := [HtnSymbol ''go'', HtnSymbol ''deliver'', HtnSymbol
         ''m_deliver'']\<rparr>) (HtnMethod (HtnCompoundTask (HtnSymbol ''deliver'')
         [HtnVariable (PStr ''?r'') (HtnType ''robot'' None)] (HtnTemporalInterval (Timepoint
         TimepointC (PStr ''__d__2'') HTN_TIMEPOINT (Float 0 0)) (Timepoint TimepointC (PStr
         ''__d__3'') HTN_TIMEPOINT (Float 0 0)))) (HtnTaskNetwork [HtnLabelMappingPair
         (HtnLabel ''l1'') (HtnCompoundTask (HtnSymbol ''go'') [HtnVariable (PStr ''?r'')
         (HtnType ''robot'' None)] (HtnTemporalInterval (Timepoint TimepointC (PStr ''__d__0'')
         HTN_TIMEPOINT (Float 0 0)) (Timepoint TimepointC (PStr ''__d__1'') HTN_TIMEPOINT
         (Float 0 0)))), HtnLabelMappingPair (HtnLabel ''l2'') (HtnCompoundTask (HtnSymbol
         ''go'') [HtnVariable (PStr ''?r'') (HtnType ''robot'' None)] (HtnTemporalInterval
         (Timepoint TimepointC (PStr ''__d__0'') HTN_TIMEPOINT (Float 0 0)) (Timepoint
         TimepointC (PStr ''__d__1'') HTN_TIMEPOINT (Float 0 0))))] []) [] [] (HtnSymbol
         ''m_deliver'')))) = [B_add_method sg cs cd tk subtasks sc] \<and> length subtasks = 2
         \<and> subtasks ! 0 \<noteq> subtasks ! 1)"
proof -
  let ?it = "\<lparr>iter_sv = rev, iter_obj = rev\<rparr>"
  let ?P = "init\<lparr>symbol_table_created := True, context_created := True, symbols :=
    [HtnSymbol ''go'', HtnSymbol ''deliver'', HtnSymbol ''m_deliver'']\<rparr>"
  let ?t = "HtnCompoundTask (HtnSymbol ''go'') [HtnVariable (PStr ''?r'') (HtnType ''robot''
    None)] (HtnTemporalInterval (Timepoint TimepointC (PStr ''__d__0'') HTN_TIMEPOINT (Float 0
    0)) (Timepoint TimepointC (PStr ''__d__1'') HTN_TIMEPOINT (Float 0 0)))"
  let ?tn = "HtnTaskNetwork [HtnLabelMappingPair (HtnLabel ''l1'') (HtnCompoundTask (HtnSymbol
    ''go'') [HtnVariable (PStr ''?r'') (HtnType ''robot'' None)] (HtnTemporalInterval
    (Timepoint TimepointC (PStr ''__d__0'') HTN_TIMEPOINT (Float 0 0)) (Timepoint TimepointC
    (PStr ''__d__1'') HTN_TIMEPOINT (Float 0 0)))), HtnLabelMappingPair (HtnLabel ''l2'')
    (HtnCompoundTask (HtnSymbol ''go'') [HtnVariable (PStr ''?r'') (HtnType ''robot'' None)]
    (HtnTemporalInterval (Timepoint TimepointC (PStr ''__d__0'') HTN_TIMEPOINT (Float 0 0))
    (Timepoint TimepointC (PStr ''__d__1'') HTN_TIMEPOINT (Float 0 0))))] []"
  let ?m = "HtnMethod (HtnCompoundTask (HtnSymbol ''deliver'') [HtnVariable (PStr ''?r'')
    (HtnType ''robot'' None)] (HtnTemporalInterval (Timepoint TimepointC (PStr ''__d__2'')
    HTN_TIMEPOINT (Float 0 0)) (Timepoint TimepointC (PStr ''__d__3'') HTN_TIMEPOINT (Float 0
    0)))) (HtnTaskNetwork [HtnLabelMappingPair (HtnLabel ''l1'') (HtnCompoundTask (HtnSymbol
    ''go'') [HtnVariable (PStr ''?r'') (HtnType ''robot'' None)] (HtnTemporalInterval
    (Timepoint TimepointC (PStr ''__d__0'') HTN_TIMEPOINT (Float 0 0)) (Timepoint TimepointC
    (PStr ''__d__1'') HTN_TIMEPOINT (Float 0 0)))), HtnLabelMappingPair (HtnLabel ''l2'')
    (HtnCompoundTask (HtnSymbol ''go'') [HtnVariable (PStr ''?r'') (HtnType ''robot'' None)]
    (HtnTemporalInterval (Timepoint TimepointC (PStr ''__d__0'') HTN_TIMEPOINT (Float 0 0))
    (Timepoint TimepointC (PStr ''__d__1'') HTN_TIMEPOINT (Float 0 0))))] []) [] [] (HtnSymbol
    ''m_deliver'')"
  have sg: "task_signature ?it Q ?t = Inr [''go'', ''?r - robot'']"
    if "symbol_table_created Q" and "symbols Q = symbols ?P" for Q
    using that
    by (simp add: task_signature_def get_signature_def check_symbol_def check_symbol_table_def
        init_def set_member_def same_or_def symbol_hash_def get_typed_object_def)
  have iv: "get_interval (HtnTemporalInterval (Timepoint TimepointC (PStr ''__d__0'')
    HTN_TIMEPOINT (Float 0 0)) (Timepoint TimepointC (PStr ''__d__1'') HTN_TIMEPOINT (Float 0
    0))) (Some l)
      = Inr [''__d__0'' @ lab_value l @ '' + 0 - __timepoint__'',
             ''__d__1'' @ lab_value l @ '' + 0 - __timepoint__'']" for l
    by (simp add: get_interval_def get_timepoint_label float_eval_zero_scaled str_of_int_0
        HTN_TIMEPOINT_def)
  have st: "check_symbol_table ?P = None"
    by (simp add: check_symbol_table_def init_def)
  have cc: "check_context ?P = None"
    by (simp add: check_context_def init_def)
  have q: "symbol_table_created ?P \<and> symbols ?P = symbols ?P"
    by (simp add: init_def)
  have f: "fst (set_goal ?it ?P (Some ?tn)) = None"
    using q by (simp add: set_goal_def st cc task_signature_temporal_split sg iv)
  then have s: "set_goal ?it ?P (Some ?tn) = (None, snd (set_goal ?it ?P (Some ?tn)))"
    by (metis prod.collapse)
  have nm: "\<not> set_member method_eq method_hash ?m (methods ?P)"
    by (simp add: init_def set_member_def)
  have cs: "check_symbol ?P (HtnSymbol ''m_deliver'') = None"
    by (simp add: check_symbol_def check_symbol_table_def init_def set_member_def same_or_def
        symbol_hash_def)
  let ?P1 = "?P\<lparr>methods := set_add method_eq method_hash ?m (methods ?P)\<rparr>"
  have q1: "symbol_table_created ?P1 \<and> symbols ?P1 = symbols ?P"
    by (simp add: init_def)
  have ms: "\<exists>sig. method_signature_temporal ?it ?P1 ?m = Inr sig"
    by (simp add: method_signature_temporal_def get_signature_temporal_def get_signature_def
        check_symbol_def check_symbol_table_def init_def set_member_def same_or_def
        symbol_hash_def method_all_params_def method_state_variables_def set_update_def
        set_add_def tn_tasks_def get_typed_object_def get_interval_def get_timepoint_def
        float_eval_zero_scaled)
  have ts: "\<exists>sig. task_signature ?it ?P1 (m_task ?m) = Inr sig"
    by (simp add: task_signature_def get_signature_def check_symbol_def check_symbol_table_def
        init_def set_member_def same_or_def symbol_hash_def get_typed_object_def)
  have g: "fst (add_method ?it ?P ?m) = None"
    using ms ts q1 nm cs cc
    by (auto simp: add_method_def Let_def task_signature_temporal_split sg iv)
  then have e: "add_method ?it ?P ?m = (None, snd (add_method ?it ?P ?m))"
    by (metis prod.collapse)
  have p: "problem ?P = []"
    by (simp add: init_def)
  note w = label_disambiguates_signature [of "HtnLabel ''l1''" "HtnLabel ''l2''" ?it ?P ?t ?tn
      "snd (set_goal ?it ?P (Some ?tn))" 0 1 ?m "snd (add_method ?it ?P ?m)" 0 1]
  note w1 = w [THEN conjunct1, rule_format]
  note w2 = w [THEN conjunct2, THEN conjunct1, rule_format]
  note w3 = w [THEN conjunct2, THEN conjunct2, rule_format]
  have a: "HtnLabel ''l1'' \<noteq> HtnLabel ''l2''"
    by simp
  from w1 [OF a] have c1: "task_signature_temporal ?it ?P ?t (Some (HtnLabel ''l1'')) =
      Inr [''go'', ''?r - robot'', ''__d__0l1 + 0 - __timepoint__'',
           ''__d__1l1 + 0 - __timepoint__'']"
    using q by (simp add: sg float_eval_zero_scaled)
      (simp add: str_of_int_0 HTN_TIMEPOINT_def)
  from w1 [OF a] have c2: "task_signature_temporal ?it ?P ?t (Some (HtnLabel ''l2'')) =
      Inr [''go'', ''?r - robot'', ''__d__0l2 + 0 - __timepoint__'',
           ''__d__1l2 + 0 - __timepoint__'']"
    using q by (simp add: sg float_eval_zero_scaled)
      (simp add: str_of_int_0 HTN_TIMEPOINT_def)
  have h: "(0::nat) < length (label_mapping ?tn) \<and> (1::nat) < length (label_mapping ?tn)
      \<and> lmp_task (label_mapping ?tn ! 0) = lmp_task (label_mapping ?tn ! 1)
      \<and> lmp_label (label_mapping ?tn ! 0) \<noteq> lmp_label (label_mapping ?tn ! 1)"
    by simp
  from w2 [OF conjI [OF s h]] have c3: "\<exists>tsks cs.
        problem (snd (set_goal ?it ?P (Some ?tn))) = [B_add_goal tsks cs]
        \<and> length tsks = 2 \<and> tsks ! 0 \<noteq> tsks ! 1"
    by (auto simp: p)
  have h': "(0::nat) < length (label_mapping (m_task_network ?m))
      \<and> (1::nat) < length (label_mapping (m_task_network ?m))
      \<and> lmp_task (label_mapping (m_task_network ?m) ! 0)
          = lmp_task (label_mapping (m_task_network ?m) ! 1)
      \<and> lmp_label (label_mapping (m_task_network ?m) ! 0)
          \<noteq> lmp_label (label_mapping (m_task_network ?m) ! 1)"
    by simp
  from w3 [OF conjI [OF nm conjI [OF e h']]] have c4: "\<exists>sg cs cd tk subtasks sc.
        problem (snd (add_method ?it ?P ?m)) = [B_add_method sg cs cd tk subtasks sc]
        \<and> length subtasks = 2 \<and> subtasks ! 0 \<noteq> subtasks ! 1"
    by (auto simp: p)
  show ?thesis
    by (intro conjI) (rule a c1 c2 f c3 nm g c4)+
qed

section \<open>The order of the pipeline phases\<close>

lemma py_int_error: "py_int x = Inl e \<Longrightarrow> e = OverflowError \<or> e = ValueError"
  by (cases x) auto

lemma get_timepoint_error:
  "get_timepoint tp l = Inl e \<Longrightarrow> e = OverflowError \<or> e = ValueError"
  by (auto simp: get_timepoint_def Let_def split: sum.splits dest: py_int_error)

lemma get_typed_object_error:
  "get_typed_object x = Inl e \<Longrightarrow> e = OverflowError \<or> e = ValueError"
  by (auto simp: get_typed_object_def split: htn_typed_object.splits dest: get_timepoint_error)

lemma get_interval_error:
  "get_interval i l = Inl e \<Longrightarrow> e = OverflowError \<or> e = ValueError"
  by (auto simp: get_interval_def split: sum.splits dest: get_timepoint_error)

lemma get_constraint_error:
  "get_constraint c = Inl e \<Longrightarrow> e = OverflowError \<or> e = ValueError"
  by (cases c)
    (auto split: sum.splits dest: get_timepoint_error get_typed_object_error)

lemma map_res_error:
  "map_res f xs = Inl e \<Longrightarrow> \<exists>x \<in> set xs. f x = Inl e"
  by (induction xs) (auto split: sum.splits)

lemma get_signature_error:
  "symbol_table_created P \<Longrightarrow> get_signature P s ps = Inl e
   \<Longrightarrow> e = UnregisteredSymbolError s \<or> e = OverflowError \<or> e = ValueError"
  by (auto simp: get_signature_def check_symbol_def check_symbol_table_def
      split: option.splits if_splits sum.splits
      dest!: map_res_error dest: get_typed_object_error)

lemma get_condition_error:
  "symbol_table_created P \<Longrightarrow> get_condition P c = Inl e
   \<Longrightarrow> e \<noteq> UncreatedSymbolTableError \<and> e \<noteq> UncreatedContextError"
  by (auto simp: get_condition_def sv_signature_def split: sum.splits
      dest: get_signature_error get_interval_error)

lemma get_effect_error:
  "symbol_table_created P \<Longrightarrow> get_effect P c = Inl e
   \<Longrightarrow> e \<noteq> UncreatedSymbolTableError \<and> e \<noteq> UncreatedContextError"
  by (auto simp: get_effect_def sv_signature_def split: sum.splits
      dest: get_signature_error get_interval_error)

lemma add_action_error_after_phases:
  assumes "symbol_table_created P" and "context_created P"
    and "fst (add_action it P a) = Some e"
  shows "e \<noteq> UncreatedSymbolTableError \<and> e \<noteq> UncreatedContextError"
proof -
  let ?P1 = "P\<lparr>actions := set_add task_eq task_hash a (actions P)\<rparr>"
  let ?c = "HtnTemporalConstraint (i_end (t_interval a))
              (tp_add (i_start (t_interval a)) HTN_EPSILON) ''>='' None None"
  let ?ok = "\<lambda>e'. e' \<noteq> UncreatedSymbolTableError \<and> e' \<noteq> UncreatedContextError"
  have st: "symbol_table_created ?P1"
    using assms(1) by simp
  have cs: "check_symbol P (t_symbol a) = Some e' \<Longrightarrow> ?ok e'" for e'
    using assms(1)
    by (auto simp: check_symbol_def check_symbol_table_def split: if_splits)
  have cc: "check_context P = None"
    using assms(2) by (simp add: check_context_def)
  have sg: "task_signature_temporal it ?P1 a None = Inl e' \<Longrightarrow> ?ok e'" for e'
    using get_signature_error [OF st]
    by (auto simp: task_signature_temporal_def get_signature_temporal_def split: sum.splits
        dest: get_interval_error)
  have ct: "map_res get_constraint (t_constraints a) = Inl e' \<Longrightarrow> ?ok e'" for e'
    by (auto dest!: map_res_error dest: get_constraint_error)
  have cd: "map_res (get_condition ?P1) (t_conditions a) = Inl e' \<Longrightarrow> ?ok e'" for e'
    using get_condition_error [OF st] by (auto dest!: map_res_error)
  have ef: "map_res (get_effect ?P1) (t_effects a) = Inl e' \<Longrightarrow> ?ok e'" for e'
    using get_effect_error [OF st] by (auto dest!: map_res_error)
  have mc: "get_constraint ?c = Inl e' \<Longrightarrow> ?ok e'" for e'
    using get_constraint_error [of ?c e'] by (auto simp del: get_constraint.simps)
  have "?ok e"
    using assms(3) cs cc sg ct cd ef mc
    by (simp add: add_action_def Let_def min_duration_eps_value
        del: get_constraint.simps split: if_splits option.splits sum.splits)
  then show ?thesis .
qed

text \<open>
  Claim C2, as the code has it. \<open>create_context\<close> checks nothing: in any state it
  calls the builder and sets \<open>context_created\<close>. \<open>add_action\<close> with an action that is
  not registered raises \<open>UncreatedSymbolTableError\<close> when the symbol table has not been
  created (so on a fresh pipeline), and \<open>UncreatedContextError\<close> when the symbol table
  has been created, the symbol of the action is registered and the context has not been
  created. After \<open>create_symbol_table\<close> and then \<open>create_context\<close>, \<open>add_action\<close>
  raises neither of the two.
\<close>

theorem phase_order_errors:
  "create_context P = P\<lparr>problem := problem P @ [B_create_context], context_created := True\<rparr>
   \<and> add_action it init a = (Some UncreatedSymbolTableError, init)
   \<and> (\<not> symbol_table_created P \<and> \<not> set_member task_eq task_hash a (actions P) \<longrightarrow>
        add_action it P a = (Some UncreatedSymbolTableError, P))
   \<and> (symbol_table_created P \<and> \<not> context_created P
        \<and> set_member (=) symbol_hash (t_symbol a) (symbols P)
        \<and> \<not> set_member task_eq task_hash a (actions P) \<longrightarrow>
        add_action it P a = (Some UncreatedContextError, P))
   \<and> fst (add_action it (create_context (create_symbol_table P)) a) \<noteq> Some UncreatedSymbolTableError
   \<and> fst (add_action it (create_context (create_symbol_table P)) a) \<noteq> Some UncreatedContextError"
proof -
  have c: "create_context P =
      P\<lparr>problem := problem P @ [B_create_context], context_created := True\<rparr>"
    by (simp add: create_context_def builder_def)
  have f: "add_action it init a = (Some UncreatedSymbolTableError, init)"
    by (simp add: add_action_def init_def set_member_def check_symbol_def
        check_symbol_table_def)
  have t: "\<not> symbol_table_created P \<and> \<not> set_member task_eq task_hash a (actions P) \<longrightarrow>
        add_action it P a = (Some UncreatedSymbolTableError, P)"
    by (simp add: add_action_def check_symbol_def check_symbol_table_def)
  have x: "symbol_table_created P \<and> \<not> context_created P
        \<and> set_member (=) symbol_hash (t_symbol a) (symbols P)
        \<and> \<not> set_member task_eq task_hash a (actions P) \<longrightarrow>
        add_action it P a = (Some UncreatedContextError, P)"
    by (simp add: add_action_def check_symbol_def check_symbol_table_def check_context_def)
  let ?Q = "create_context (create_symbol_table P)"
  have q1: "symbol_table_created ?Q"
    by (simp add: create_context_def create_symbol_table_def builder_def)
  have q2: "context_created ?Q"
    by (simp add: create_context_def create_symbol_table_def builder_def)
  have n1: "fst (add_action it ?Q a) \<noteq> Some UncreatedSymbolTableError"
    using add_action_error_after_phases [OF q1 q2] by blast
  have n2: "fst (add_action it ?Q a) \<noteq> Some UncreatedContextError"
    using add_action_error_after_phases [OF q1 q2] by blast
  from c f t x n1 n2 show ?thesis
    by blast
qed

theorem phase_order_errors_witness:
  "\<not> symbol_table_created (init\<lparr>symbols := [HtnSymbol ''noop'']\<rparr>)
   \<and> \<not> set_member task_eq task_hash
        (HtnPrimitiveTask (HtnSymbol ''noop'') []
           (HtnTemporalInterval (Timepoint TimepointC (PStr ''__d__0'') HTN_TIMEPOINT (Float 0 0))
              (Timepoint TimepointC (PStr ''__d__1'') HTN_TIMEPOINT (Float 0 0))) [] [] [])
        (actions (init\<lparr>symbols := [HtnSymbol ''noop'']\<rparr>))
   \<and> add_action \<lparr>iter_sv = rev, iter_obj = rev\<rparr> (init\<lparr>symbols := [HtnSymbol ''noop'']\<rparr>)
        (HtnPrimitiveTask (HtnSymbol ''noop'') []
           (HtnTemporalInterval (Timepoint TimepointC (PStr ''__d__0'') HTN_TIMEPOINT (Float 0 0))
              (Timepoint TimepointC (PStr ''__d__1'') HTN_TIMEPOINT (Float 0 0))) [] [] [])
       = (Some UncreatedSymbolTableError, init\<lparr>symbols := [HtnSymbol ''noop'']\<rparr>)
   \<and> symbol_table_created (create_symbol_table (init\<lparr>symbols := [HtnSymbol ''noop'']\<rparr>))
   \<and> \<not> context_created (create_symbol_table (init\<lparr>symbols := [HtnSymbol ''noop'']\<rparr>))
   \<and> set_member (=) symbol_hash (HtnSymbol ''noop'')
        (symbols (create_symbol_table (init\<lparr>symbols := [HtnSymbol ''noop'']\<rparr>)))
   \<and> add_action \<lparr>iter_sv = rev, iter_obj = rev\<rparr>
        (create_symbol_table (init\<lparr>symbols := [HtnSymbol ''noop'']\<rparr>))
        (HtnPrimitiveTask (HtnSymbol ''noop'') []
           (HtnTemporalInterval (Timepoint TimepointC (PStr ''__d__0'') HTN_TIMEPOINT (Float 0 0))
              (Timepoint TimepointC (PStr ''__d__1'') HTN_TIMEPOINT (Float 0 0))) [] [] [])
       = (Some UncreatedContextError,
          create_symbol_table (init\<lparr>symbols := [HtnSymbol ''noop'']\<rparr>))"
proof -
  let ?it = "\<lparr>iter_sv = rev, iter_obj = rev\<rparr>"
  let ?P = "init\<lparr>symbols := [HtnSymbol ''noop'']\<rparr>"
  let ?a = "HtnPrimitiveTask (HtnSymbol ''noop'') []
              (HtnTemporalInterval
                 (Timepoint TimepointC (PStr ''__d__0'') HTN_TIMEPOINT (Float 0 0))
                 (Timepoint TimepointC (PStr ''__d__1'') HTN_TIMEPOINT (Float 0 0))) [] [] []"
  have h1: "\<not> symbol_table_created ?P \<and> \<not> set_member task_eq task_hash ?a (actions ?P)"
    by (simp add: init_def set_member_def)
  have h2: "symbol_table_created (create_symbol_table ?P)
      \<and> \<not> context_created (create_symbol_table ?P)
      \<and> set_member (=) symbol_hash (t_symbol ?a) (symbols (create_symbol_table ?P))
      \<and> \<not> set_member task_eq task_hash ?a (actions (create_symbol_table ?P))"
    by (simp add: init_def set_member_def same_or_def create_symbol_table_def builder_def)
  note w1 = phase_order_errors [of ?P ?it ?a, THEN conjunct2, THEN conjunct2, THEN conjunct1,
      rule_format, OF h1]
  note w2 = phase_order_errors [of "create_symbol_table ?P" ?it ?a, THEN conjunct2, THEN conjunct2,
      THEN conjunct2, THEN conjunct1, rule_format, OF h2]
  from h1 h2 w1 w2 show ?thesis
    by simp
qed

text \<open>
  On a fresh pipeline \<open>create_context\<close> raises no ordering error although the symbol
  table has not been created: the builder is called and the context is marked as
  created.
\<close>

theorem create_context_unguarded:
  "\<not> symbol_table_created init
   \<and> create_context init = init\<lparr>problem := [B_create_context], context_created := True\<rparr>
   \<and> context_created (create_context init)
   \<and> \<not> symbol_table_created (create_context init)"
  by (simp add: create_context_def builder_def init_def)

section \<open>Registering twice\<close>






















section \<open>What a domain registers in its language\<close>



























end
